theory Spec2Isabelle
  imports Main
begin

section \<open>Interpreter, exceptions and the trace of a run\<close>

text \<open>
  \<^verbatim>\<open>parse.py\<close> starts with \<^verbatim>\<open>#!/usr/bin/env python\<close> and has no
  \<^verbatim>\<open>from __future__ import print_function\<close>. The two lines
  \<^verbatim>\<open>print("<div id= '%s' class= 'area'>")%(area_name)\<close> and
  \<^verbatim>\<open>print("<div id='%s_devices' class= 'devices'><ul>")%(area_name)\<close>
  are read differently by the two language versions:
  \<^item> Python 2: \<^verbatim>\<open>print\<close> is a statement and the line is
    \<^verbatim>\<open>print (("...") % (area_name))\<close>, which prints the formatted text;
  \<^item> Python 3: \<^verbatim>\<open>print\<close> is a function, the literal text is printed, the call
    returns \<^verbatim>\<open>None\<close> and \<^verbatim>\<open>None % area_name\<close> raises \<^verbatim>\<open>TypeError\<close>.
  Every other statement of the file means the same in both, so the version is a parameter
  of the model and is looked at in exactly those two places.
\<close>

datatype pyver = Py2 | Py3

datatype exn =
    TypeError       \<comment> \<open>\<^verbatim>\<open>None % str\<close>\<close>
  | DatabaseError   \<comment> \<open>raised by \<^verbatim>\<open>sqlite3\<close> when the file is not a database with the tables queried\<close>
  | ReadError       \<comment> \<open>raised by \<^verbatim>\<open>tarfile.open\<close> when the file is not a gzip-compressed tar archive\<close>

datatype outcome = Returned | Raised exn

datatype query =
    SelectHub
  | SelectWifi
  | SelectAreas
  | SelectDevices int      \<comment> \<open>the area id bound to \<^verbatim>\<open>?\<close>\<close>
  | SelectPico int         \<comment> \<open>the device id bound to \<^verbatim>\<open>?\<close>\<close>
  | SelectOccupancy int
  | SelectDaylight int

text \<open>What a run does, in order: each \<^verbatim>\<open>print\<close> call with its text (the newline that
  \<^verbatim>\<open>print\<close> appends is left out), each \<^verbatim>\<open>c.execute\<close>, and the opening and
  closing of the connection.\<close>

datatype event = Connect | Execute query | Print string | Close

section \<open>Formatting\<close>

definition hexdigit :: "nat \<Rightarrow> char" where
  "hexdigit d = ''0123456789ABCDEF'' ! d"

fun hexstr :: "nat \<Rightarrow> string" where
  "hexstr n = (if n < 16 then [hexdigit n] else hexstr (n div 16) @ [hexdigit (n mod 16)])"

definition decdigit :: "nat \<Rightarrow> char" where
  "decdigit d = ''0123456789'' ! d"

fun decstr :: "nat \<Rightarrow> string" where
  "decstr n = (if n < 10 then [decdigit n] else decstr (n div 10) @ [decdigit (n mod 10)])"

definition zero_pad :: "nat \<Rightarrow> string \<Rightarrow> string" where
  "zero_pad w s = replicate (w - length s) (CHR ''0'') @ s"

text \<open>\<^verbatim>\<open>"%08X" % n\<close>: uppercase hexadecimal in a field of width 8 filled with zeros; the
  sign of a negative number takes one place of the field and the zeros follow it.\<close>

definition fmt_08X :: "int \<Rightarrow> string" where
  "fmt_08X n = (if n < 0 then CHR ''-'' # zero_pad 7 (hexstr (nat (- n)))
                else zero_pad 8 (hexstr (nat n)))"

text \<open>\<^verbatim>\<open>"%d" % n\<close>.\<close>

definition fmt_d :: "int \<Rightarrow> string" where
  "fmt_d n = (if n < 0 then CHR ''-'' # decstr (nat (- n)) else decstr (nat n))"

text \<open>\<^verbatim>\<open>s.lstrip(chars)\<close>: the longest prefix made of characters of \<open>chars\<close> is removed.\<close>

definition lstrip :: "string \<Rightarrow> string \<Rightarrow> string" where
  "lstrip chars s = dropWhile (\<lambda>c. c \<in> set chars) s"

text \<open>The firmware revision as line 331 shows it: \<^verbatim>\<open>device_fw_rev.lstrip("0")\<close>.\<close>

definition strip_fw_rev :: "string \<Rightarrow> string" where
  "strip_fw_rev device_fw_rev = lstrip ''0'' device_fw_rev"

text \<open>Reading a hexadecimal numeral back (used to state what \<open>fmt_08X\<close> shows).\<close>

definition hexvalue_of :: "char \<Rightarrow> nat" where
  "hexvalue_of c = length (takeWhile (\<lambda>x. x \<noteq> c) ''0123456789ABCDEF'')"

definition hexval :: "string \<Rightarrow> nat" where
  "hexval s = foldl (\<lambda>a c. 16 * a + hexvalue_of c) 0 s"

section \<open>The database\<close>

text \<open>
  The schema is not part of the repository; the tables and columns are those the queries
  name. Column types follow the data model of the specification: identifiers and serial
  numbers are integers, names, model numbers, descriptions and firmware revisions are
  strings. A table is the list of its rows.
\<close>

record device_row =
  DeviceID :: int
  Name :: string
  DeviceClassInfoID :: int
  SerialNumber :: int
  FirmwareRevision :: string
  ContainerObjectID :: int
  ContainerObjectTypeID :: int

record device_class_info_row =
  CI_DeviceClassInfoID :: int
  ModelNumber :: string
  ShortDescription :: string

record area_row =
  AreaID :: int
  Area_Name :: string

record database =
  Device :: "device_row list"
  DeviceClassInfo :: "device_class_info_row list"
  WifiSettings :: "string list"                       \<comment> \<open>Ssid\<close>
  Area :: "area_row list"
  Button :: "(int \<times> int) list"                        \<comment> \<open>DeviceID, ProgrammingModelID\<close>
  ProgrammingModel :: "int list"                      \<comment> \<open>ProgrammingModelID\<close>
  Preset :: "(int \<times> int) list"                        \<comment> \<open>PresetID, ProgrammingModelID\<close>
  PresetAssignment :: "(int \<times> int \<times> int) list"        \<comment> \<open>PresetID, AssignableObjectID, AssignableObjectTypeID\<close>
  Zone :: "(int \<times> int) list"                          \<comment> \<open>ZoneID, AssociatedSwitchLegControllerID\<close>
  SwitchLegController :: "(int \<times> int) list"           \<comment> \<open>SwitchLegControllerID, DeviceID\<close>
  OccupancySensorConnection :: "(int \<times> int) list"     \<comment> \<open>DeviceID, OccupancySensorID\<close>
  OccupancySensor :: "int list"                       \<comment> \<open>OccupancySensorID\<close>
  OccupancySensorAssociation :: "(int \<times> int) list"    \<comment> \<open>OccupancySensorID, SwitchLegControllerID\<close>
  DaylightSensorConnection :: "(int \<times> int) list"      \<comment> \<open>DeviceID, DaylightSensorID\<close>
  DaylightGainGroup :: "(int \<times> int) list"             \<comment> \<open>DaylightSensorID, DaylightGainGroupID\<close>
  DaylightGainGroupAssociation :: "(int \<times> int) list"  \<comment> \<open>DaylightGainGroupID, SwitchLegControllerID\<close>

definition empty_database :: database where
  "empty_database = \<lparr>Device = [], DeviceClassInfo = [], WifiSettings = [], Area = [],
     Button = [], ProgrammingModel = [], Preset = [], PresetAssignment = [], Zone = [],
     SwitchLegController = [], OccupancySensorConnection = [], OccupancySensor = [],
     OccupancySensorAssociation = [], DaylightSensorConnection = [], DaylightGainGroup = [],
     DaylightGainGroupAssociation = []\<rparr>"

subsection \<open>The queries\<close>

text \<open>
  A join is the list of the combinations of rows that satisfy its condition; the order of
  the result is the database engine's choice and no statement below depends on it.
  \<^verbatim>\<open>SELECT DISTINCT\<close> is \<open>remdups\<close> on the selected columns.
\<close>

type_synonym hub_result = "string \<times> int"
  \<comment> \<open>Name, SerialNumber\<close>
type_synonym device_result = "int \<times> string \<times> int \<times> int \<times> string \<times> string \<times> string"
  \<comment> \<open>DeviceID, Name, DeviceClassInfoID, SerialNumber, ModelNumber, ShortDescription, FirmwareRevision\<close>
type_synonym programmed_result = "string \<times> int \<times> string \<times> string"
  \<comment> \<open>Name, SerialNumber, ModelNumber, ShortDescription\<close>

text \<open>\<^verbatim>\<open>SELECT Name, SerialNumber FROM Device WHERE DeviceID="1"\<close>: the text \<^verbatim>\<open>"1"\<close> is
  compared with an integer column, which compares the number 1.\<close>

definition select_hub :: "database \<Rightarrow> hub_result list" where
  "select_hub db = [(Name d, SerialNumber d). d \<leftarrow> Device db, DeviceID d = 1]"

definition select_wifi :: "database \<Rightarrow> string list" where
  "select_wifi db = [ssid. ssid \<leftarrow> WifiSettings db]"

definition select_areas :: "database \<Rightarrow> (int \<times> string) list" where
  "select_areas db = [(AreaID a, Area_Name a). a \<leftarrow> Area db, Area_Name a \<noteq> ''root'']"

definition select_devices :: "database \<Rightarrow> int \<Rightarrow> device_result list" where
  "select_devices db area_id =
     [(DeviceID d, Name d, DeviceClassInfoID d, SerialNumber d, ModelNumber ci,
       ShortDescription ci, FirmwareRevision d).
        d \<leftarrow> Device db,
        ci \<leftarrow> DeviceClassInfo db, DeviceClassInfoID d = CI_DeviceClassInfoID ci,
        ContainerObjectID d = area_id \<and> ContainerObjectTypeID d = 2]"

definition select_pico :: "database \<Rightarrow> int \<Rightarrow> programmed_result list" where
  "select_pico db device_id = remdups
     [(Name d, SerialNumber d, ModelNumber ci, ShortDescription ci).
        (b_device, b_model) \<leftarrow> Button db,
        pm \<leftarrow> ProgrammingModel db, pm = b_model,
        (preset, p_model) \<leftarrow> Preset db, p_model = b_model,
        (pa_preset, pa_object, pa_type) \<leftarrow> PresetAssignment db, pa_preset = preset,
        (zone, z_slc) \<leftarrow> Zone db, pa_object = zone \<and> pa_type = 15,
        (slc, slc_device) \<leftarrow> SwitchLegController db, z_slc = slc,
        d \<leftarrow> Device db, DeviceID d = slc_device,
        ci \<leftarrow> DeviceClassInfo db, DeviceClassInfoID d = CI_DeviceClassInfoID ci,
        b_device = device_id]"

definition select_occupancy :: "database \<Rightarrow> int \<Rightarrow> programmed_result list" where
  "select_occupancy db device_id = remdups
     [(Name d, SerialNumber d, ModelNumber ci, ShortDescription ci).
        (c_device, c_sensor) \<leftarrow> OccupancySensorConnection db,
        sensor \<leftarrow> OccupancySensor db, sensor = c_sensor,
        (a_sensor, a_slc) \<leftarrow> OccupancySensorAssociation db, a_sensor = c_sensor,
        (slc, slc_device) \<leftarrow> SwitchLegController db, a_slc = slc,
        d \<leftarrow> Device db, DeviceID d = slc_device,
        ci \<leftarrow> DeviceClassInfo db, DeviceClassInfoID d = CI_DeviceClassInfoID ci,
        c_device = device_id]"

definition select_daylight :: "database \<Rightarrow> int \<Rightarrow> programmed_result list" where
  "select_daylight db device_id = remdups
     [(Name d, SerialNumber d, ModelNumber ci, ShortDescription ci).
        (c_device, c_sensor) \<leftarrow> DaylightSensorConnection db,
        (g_sensor, g_group) \<leftarrow> DaylightGainGroup db, g_sensor = c_sensor,
        (a_group, a_slc) \<leftarrow> DaylightGainGroupAssociation db, a_group = g_group,
        (slc, slc_device) \<leftarrow> SwitchLegController db, a_slc = slc,
        d \<leftarrow> Device db, DeviceID d = slc_device,
        ci \<leftarrow> DeviceClassInfo db, DeviceClassInfoID d = CI_DeviceClassInfoID ci,
        c_device = device_id]"

section \<open>\<^verbatim>\<open>dumpproject\<close>\<close>

definition nl :: string where
  "nl = [CHR 10]"

definition apos :: string where
  "apos = [CHR 0x27]"

definition tabs :: "nat \<Rightarrow> string" where
  "tabs n = replicate n (CHR 9)"

text \<open>The text of the first \<^verbatim>\<open>print\<close> (lines 85 to 139), with its tabs and newlines.\<close>

definition boilerplate :: string where
  \<open>boilerplate = concat [
    nl,
    tabs 3 @ ''<!-- JS -->'' @ nl,
    tabs 3 @ ''<script src="https://ajax.googleapis.com/ajax/libs/jquery/3.1.1/jquery.min.js"></script>'' @ nl,
    tabs 3 @ ''<script type="text/javascript">'' @ nl,
    tabs 4 @ ''  $(document).ready(function($) {'' @ nl,
    tabs 5 @ ''$('#showall').click(function(){'' @ nl,
    tabs 5 @ ''  //Expand all areas'' @ nl,
    tabs 5 @ ''  $('.devices').show('fast');'' @ nl,
    tabs 5 @ ''});'' @ nl,
    tabs 5 @ nl,
    tabs 5 @ ''$('#hideall').click(function(){'' @ nl,
    tabs 5 @ ''  //Collapse all areas'' @ nl,
    tabs 5 @ ''  $('.devices').hide('fast');'' @ nl,
    tabs 5 @ ''});'' @ nl,
    tabs 5 @ nl,
    tabs 5 @ ''$('.area').click(function(e){'' @ nl,
    tabs 5 @ ''  //Expand or collapse all assigned_dev'' @ nl,
    tabs 5 @ ''  if (e.target !== this)'' @ nl,
    tabs 7 @ ''return;'' @ nl,
    tabs 5 @ ''  $(this).children().toggle('fast');'' @ nl,
    nl,
    tabs 5 @ ''});'' @ nl,
    tabs 5 @ nl,
    tabs 5 @ ''$('.control_device').click(function(e){'' @ nl,
    tabs 5 @ ''  //Expand or collapse all assigned_dev'' @ nl,
    tabs 5 @ ''  if (e.target !== this)'' @ nl,
    tabs 7 @ ''return;'' @ nl,
    tabs 5 @ ''  $(this).next().toggle('fast');'' @ nl,
    nl,
    tabs 5 @ ''});'' @ nl,
    tabs 5 @ nl,
    tabs 5 @ nl,
    tabs 4 @ ''  });'' @ nl,
    tabs 3 @ ''</script>'' @ nl,
    nl,
    tabs 3 @ nl,
    tabs 3 @ ''<!-- CSS -->'' @ nl,
    tabs 3 @ ''<style type='text/css'>'' @ nl,
    tabs 2 @ nl,
    tabs 4 @ nl,
    tabs 1 @ nl,
    tabs 4 @ ''.area {color: blue; font-size: large}'' @ nl,
    tabs 4 @ ''.area {cursor: pointer;}'' @ nl,
    tabs 4 @ nl,
    tabs 4 @ ''.control_device {color: black; cursor: pointer;}'' @ nl,
    tabs 4 @ nl,
    tabs 4 @ ''.assigned_devices {color: purple; font-style: italic; cursor: text;}'' @ nl,
    tabs 4 @ nl,
    tabs 4 @ ''.load_controller {color: green; cursor: text;}'' @ nl,
    tabs 2 @ nl,
    tabs 4 @ ''#hub_info {font-weight: bold; font-size: large;}'' @ nl,
    tabs 3 @ ''</style>'' @ nl,
    nl,
    tabs 3 @ nl,
    tabs 2 @ ''  ''
  ]\<close>

definition header_events :: "event list" where
  "header_events =
     [Connect,
      Print boilerplate,
      Print ''<input type='button' value='Print' onClick='window.print()'>'',
      Print ''<div id='hub_info'>'']"

text \<open>Lines 145 to 151.\<close>

definition hub_lines :: "hub_result \<Rightarrow> event list" where
  "hub_lines hub = (case hub of (hub_name, hub_serial) \<Rightarrow>
     [Print (''Hub Serial: '' @ fmt_08X hub_serial), Print ''<br />''])"

definition hub_events :: "database \<Rightarrow> event list" where
  "hub_events db = Execute SelectHub # concat (map hub_lines (select_hub db))"

text \<open>Lines 154 to 159.\<close>

definition wifi_lines :: "string \<Rightarrow> event list" where
  "wifi_lines wifi_name =
     [Print (''Wifi Name: '' @ wifi_name),
      Print ''<br /><textarea rows='4' cols='30' placeholder='Enter notes here, e.g. The WiFi Password is Lutron123!'></textarea><br />'']"

definition wifi_events :: "database \<Rightarrow> event list" where
  "wifi_events db = Execute SelectWifi # concat (map wifi_lines (select_wifi db))"

text \<open>Lines 162 and 163.\<close>

definition links_events :: "event list" where
  "links_events =
     [Print ''<a href ='#' id ='showall' title='Expand All Areas'>&#8650;</a> | <a href ='#' id ='hideall' title='Collapse All Areas'>&#8649;</a>'',
      Print ''</div><br /><div id='areas'>'']"

subsection \<open>One device (the body of the loop at line 220)\<close>

definition pico_device_class_info_ids :: "int list" where
  "pico_device_class_info_ids = [12, 21, 22, 23, 24, 25, 32, 33, 34, 35]"

definition occ_sensor_device_class_info_ids :: "int list" where
  "occ_sensor_device_class_info_ids = [11]"

definition daylight_sensor_device_class_info_ids :: "int list" where
  "daylight_sensor_device_class_info_ids = [46]"

text \<open>One item of the nested list (lines 252 to 262, and the same again at 284 and 317).\<close>

definition programmed_device_lines :: "programmed_result \<Rightarrow> event list" where
  "programmed_device_lines programmed_device_row =
     (case programmed_device_row of
        (programmed_device_name, programmed_device_serial_number,
         programmed_device_designer_tag, programmed_device_short_descr) \<Rightarrow>
          [Print ''<li>'',
           Print (''        '' @ programmed_device_designer_tag @ '': '' @ programmed_device_name
                  @ '' (SN: '' @ fmt_08X programmed_device_serial_number @ '')''),
           Print ''</li>''])"

text \<open>The three branches for control devices differ in the query and in one word of the
  heading only; \<open>kind\<close> is that word, \<open>programmed_devices_rows\<close> the rows fetched.\<close>

definition control_device_lines ::
  "string \<Rightarrow> string \<Rightarrow> string \<Rightarrow> int \<Rightarrow> programmed_result list \<Rightarrow> event list" where
  "control_device_lines kind device_designer_tag device_name device_serial_number
       programmed_devices_rows =
     [Print (''<div id='0x'' @ fmt_08X device_serial_number @ apos @ '' class= 'control_device'>''),
      Print (''    '' @ device_designer_tag @ '': '' @ device_name @ '' (SN: ''
             @ fmt_08X device_serial_number @ '') (This '' @ kind @ '' controls ''
             @ fmt_d (int (length programmed_devices_rows)) @ '' devices)''),
      Print (''</div><div id ='0x'' @ fmt_08X device_serial_number
             @ ''_assigned_devices' class='assigned_devices'><ul>'')]
     @ concat (map programmed_device_lines programmed_devices_rows)
     @ [Print ''</ul></div>'']"

definition load_controller_lines :: "string \<Rightarrow> string \<Rightarrow> int \<Rightarrow> string \<Rightarrow> event list" where
  "load_controller_lines device_designer_tag device_name device_serial_number device_fw_rev =
     [Print (''<div id='0x'' @ fmt_08X device_serial_number @ apos @ '' class='load_controller'>''),
      Print (''    '' @ device_designer_tag @ '': '' @ device_name @ '' (SN: ''
             @ fmt_08X device_serial_number @ '') (v'' @ strip_fw_rev device_fw_rev @ '')''),
      Print ''</div>'']"

definition dump_device :: "database \<Rightarrow> device_result \<Rightarrow> event list" where
  "dump_device db device_row =
     (case device_row of
        (device_id, device_name, device_class_info_id, device_serial_number,
         device_designer_tag, device_short_descr, device_fw_rev) \<Rightarrow>
          if device_class_info_id \<in> set pico_device_class_info_ids then
            Execute (SelectPico device_id)
            # control_device_lines ''Pico'' device_designer_tag device_name
                device_serial_number (select_pico db device_id)
          else if device_class_info_id \<in> set occ_sensor_device_class_info_ids then
            Execute (SelectOccupancy device_id)
            # control_device_lines ''Occupancy Sensor'' device_designer_tag device_name
                device_serial_number (select_occupancy db device_id)
          else if device_class_info_id \<in> set daylight_sensor_device_class_info_ids then
            Execute (SelectDaylight device_id)
            # control_device_lines ''Daylight Sensor'' device_designer_tag device_name
                device_serial_number (select_daylight db device_id)
          else
            load_controller_lines device_designer_tag device_name device_serial_number
              device_fw_rev)"

subsection \<open>The areas (the loop at line 173)\<close>

text \<open>What an area writes when none of its statements raises.\<close>

definition area_events :: "database \<Rightarrow> int \<Rightarrow> string \<Rightarrow> event list" where
  "area_events db area_id area_name =
     (let device_rows = select_devices db area_id in
      [Execute (SelectDevices area_id),
       Print (''<div id= '' @ apos @ area_name @ apos @ '' class= 'area'>''),
       Print (''Area: '' @ area_name @ '' (There are '' @ fmt_d (int (length device_rows))
              @ '' total devices in this Area)''),
       Print (''<div id='' @ apos @ area_name @ ''_devices' class= 'devices'><ul>'')]
      @ concat (map (dump_device db) device_rows)
      @ [Print ''</ul></div></div>''])"

fun dump_areas :: "pyver \<Rightarrow> database \<Rightarrow> (int \<times> string) list \<Rightarrow> event list \<times> outcome" where
  "dump_areas ver db [] = ([], Returned)"
| "dump_areas Py3 db ((area_id, area_name) # area_rows) =
     ([Execute (SelectDevices area_id), Print ''<div id= '%s' class= 'area'>''],
      Raised TypeError)"
| "dump_areas Py2 db ((area_id, area_name) # area_rows) =
     (case dump_areas Py2 db area_rows of
        (events, result) \<Rightarrow> (area_events db area_id area_name @ events, result))"

text \<open>The argument is what \<^verbatim>\<open>sqlite3.connect(dbpath)\<close> finds at the path: \<open>None\<close> when the
  file is not a database with the tables of the queries, in which case the first
  \<^verbatim>\<open>c.execute\<close> raises.\<close>

definition dumpproject :: "pyver \<Rightarrow> database option \<Rightarrow> event list \<times> outcome" where
  "dumpproject ver found =
     (case found of
        None \<Rightarrow> (header_events @ [Execute SelectHub], Raised DatabaseError)
      | Some db \<Rightarrow>
          (case dump_areas ver db (select_areas db) of
             (events, result) \<Rightarrow>
               (header_events @ hub_events db @ wifi_events db @ links_events
                @ [Execute SelectAreas] @ events
                @ (case result of Returned \<Rightarrow> [Close] | Raised e \<Rightarrow> []),
                result)))"

text \<open>The standard output of a trace: the texts printed, each followed by a newline.\<close>

definition printed :: "event list \<Rightarrow> string list" where
  "printed events = concat (map (\<lambda>e. case e of Print s \<Rightarrow> [s] | _ \<Rightarrow> []) events)"

definition stdout_text :: "event list \<Rightarrow> string" where
  "stdout_text events = concat (map (\<lambda>s. s @ nl) (printed events))"

definition executed :: "event list \<Rightarrow> query list" where
  "executed events = concat (map (\<lambda>e. case e of Execute q \<Rightarrow> [q] | _ \<Rightarrow> []) events)"

text \<open>Counting the occurrences of a tag in what was printed. No tag contains a newline, so
  the occurrences in the output are those in the printed texts.\<close>

fun starts_with :: "string \<Rightarrow> string \<Rightarrow> bool" where
  "starts_with [] s = True"
| "starts_with (p # ps) [] = False"
| "starts_with (p # ps) (c # cs) = (p = c \<and> starts_with ps cs)"

fun count_sub :: "string \<Rightarrow> string \<Rightarrow> nat" where
  "count_sub p [] = 0"
| "count_sub p (c # cs) = (if starts_with p (c # cs) then 1 else 0) + count_sub p cs"

definition count_tag :: "string \<Rightarrow> event list \<Rightarrow> nat" where
  "count_tag p events = sum_list (map (count_sub p) (printed events))"

section \<open>\<^verbatim>\<open>main\<close>\<close>

text \<open>
  A tar member and a file on disk hold the same thing: either a database with the tables
  of the queries, or an archive, or something else. Archive members are regular files.
  The file system maps the paths of regular files to their contents.
\<close>

datatype contents = Sqlite database | TarGz "(string \<times> contents) list" | Other

type_synonym filesystem = "string \<rightharpoonup> contents"

definition connect :: "filesystem \<Rightarrow> string \<Rightarrow> database option" where
  "connect fs dbpath = (case fs dbpath of Some (Sqlite db) \<Rightarrow> Some db | _ \<Rightarrow> None)"

datatype opt = DatabasePath string | SupportFile string

record args =
  database_path :: "string option"
  support_file :: "string option"

datatype exit =
    ExitOk              \<comment> \<open>status 0\<close>
  | ParserError string  \<comment> \<open>\<^verbatim>\<open>parser.error(message)\<close>: the message on the error stream, status 2\<close>
  | Traceback exn       \<comment> \<open>an exception nobody caught: status 1\<close>

fun exit_status :: "exit \<Rightarrow> nat" where
  "exit_status ExitOk = 0"
| "exit_status (ParserError message) = 2"
| "exit_status (Traceback e) = 1"

record run =
  trace :: "event list"
  exit_with :: exit
  files :: filesystem

definition fileexists :: "filesystem \<Rightarrow> string \<Rightarrow> string + string" where
  "fileexists fs path =
     (if fs path = None then Inl (''File '' @ path @ '' is not a valid file or does not exist.'')
      else Inr path)"

text \<open>The options in the order of the command line; a later one replaces an earlier one.\<close>

fun parse_args :: "filesystem \<Rightarrow> opt list \<Rightarrow> args \<Rightarrow> string + args" where
  "parse_args fs [] a = Inr a"
| "parse_args fs (DatabasePath p # rest) a =
     (case fileexists fs p of
        Inl message \<Rightarrow> Inl (''argument -d/--database-path: '' @ message)
      | Inr path \<Rightarrow> parse_args fs rest (a\<lparr>database_path := Some path\<rparr>))"
| "parse_args fs (SupportFile p # rest) a =
     (case fileexists fs p of
        Inl message \<Rightarrow> Inl (''argument -s/--support-file: '' @ message)
      | Inr path \<Rightarrow> parse_args fs rest (a\<lparr>support_file := Some path\<rparr>))"

definition member_name :: string where
  "member_name = ''./supportfile/lutron-db.sqlite''"

definition default_database_path :: string where
  "default_database_path = ''/var/db/lutron-db.sqlite''"

definition finish :: "filesystem \<Rightarrow> event list \<times> outcome \<Rightarrow> run" where
  "finish fs r = (case r of
      (events, Returned) \<Rightarrow> \<lparr>trace = events, exit_with = ExitOk, files = fs\<rparr>
    | (events, Raised e) \<Rightarrow> \<lparr>trace = events, exit_with = Traceback e, files = fs\<rparr>)"

text \<open>\<open>tmp\<close> is the name \<^verbatim>\<open>tempfile.NamedTemporaryFile\<close> chooses (a path that no file has).\<close>

definition main :: "pyver \<Rightarrow> string \<Rightarrow> opt list \<Rightarrow> filesystem \<Rightarrow> run" where
  \<open>main ver tmp argv fs =
     (case parse_args fs argv \<lparr>database_path = None, support_file = None\<rparr> of
        Inl message \<Rightarrow> \<lparr>trace = [], exit_with = ParserError message, files = fs\<rparr>
      | Inr args \<Rightarrow>
          (case support_file args of
             Some sf \<Rightarrow>
               (case fs sf of
                  Some (TarGz tar) \<Rightarrow>
                    (let info = filter (\<lambda>s. fst s = member_name) tar in
                     if length info = 1 then
                       (let fs1 = fs(tmp \<mapsto> snd (hd info)) in
                        case dumpproject ver (connect fs1 tmp) of
                          (events, Returned) \<Rightarrow>
                            \<lparr>trace = events, exit_with = ExitOk, files = fs1(tmp := None)\<rparr>
                        | (events, Raised e) \<Rightarrow>
                            \<lparr>trace = events, exit_with = Traceback e, files = fs1\<rparr>)
                     else
                       \<lparr>trace = [],
                        exit_with = ParserError
                          (''Invalid support file (couldn't find database) - '' @ sf),
                        files = fs\<rparr>)
                | _ \<Rightarrow> \<lparr>trace = [], exit_with = Traceback ReadError, files = fs\<rparr>)
           | None \<Rightarrow>
               (case database_path args of
                  None \<Rightarrow>
                    if fs default_database_path = None then
                      \<lparr>trace = [],
                       exit_with = ParserError
                         (''Cannot find default database file at "'' @ default_database_path
                          @ ''", please specify a valid path''),
                       files = fs\<rparr>
                    else finish fs (dumpproject ver (connect fs default_database_path))
                | Some path \<Rightarrow> finish fs (dumpproject ver (connect fs path)))))\<close>

section \<open>Example inputs\<close>

text \<open>A hub, and one area \<open>Kitchen\<close> with a Pico remote programmed to a dimmer; the area
  \<open>root\<close> is the placeholder.\<close>

definition kitchen_db :: database where
  "kitchen_db = empty_database\<lparr>
     Device :=
       [\<lparr>DeviceID = 1, Name = ''Hub'', DeviceClassInfoID = 1, SerialNumber = 27439044,
         FirmwareRevision = ''001.2'', ContainerObjectID = 0, ContainerObjectTypeID = 1\<rparr>,
        \<lparr>DeviceID = 2, Name = ''Remote'', DeviceClassInfoID = 12, SerialNumber = 42,
         FirmwareRevision = ''001.0'', ContainerObjectID = 5, ContainerObjectTypeID = 2\<rparr>,
        \<lparr>DeviceID = 3, Name = ''Lamp'', DeviceClassInfoID = 100, SerialNumber = 43,
         FirmwareRevision = ''007.1'', ContainerObjectID = 5, ContainerObjectTypeID = 2\<rparr>],
     DeviceClassInfo :=
       [\<lparr>CI_DeviceClassInfoID = 1, ModelNumber = ''HUB'', ShortDescription = ''Vive Hub''\<rparr>,
        \<lparr>CI_DeviceClassInfoID = 12, ModelNumber = ''Pico-1'', ShortDescription = ''Pico Remote''\<rparr>,
        \<lparr>CI_DeviceClassInfoID = 100, ModelNumber = ''Dimmer'', ShortDescription = ''A dimmer''\<rparr>],
     WifiSettings := [''vive''],
     Area := [\<lparr>AreaID = 4, Area_Name = ''root''\<rparr>, \<lparr>AreaID = 5, Area_Name = ''Kitchen''\<rparr>],
     Button := [(2, 7), (2, 7)],
     ProgrammingModel := [7],
     Preset := [(8, 7)],
     PresetAssignment := [(8, 9, 15)],
     Zone := [(9, 10)],
     SwitchLegController := [(10, 3)]\<rparr>"

text \<open>A Pico remote programmed to two devices that have the same name and the same serial
  number and are of two different models.\<close>

definition twin_db :: database where
  "twin_db = empty_database\<lparr>
     Device :=
       [\<lparr>DeviceID = 2, Name = ''Remote'', DeviceClassInfoID = 12, SerialNumber = 42,
         FirmwareRevision = ''001.0'', ContainerObjectID = 5, ContainerObjectTypeID = 2\<rparr>,
        \<lparr>DeviceID = 3, Name = ''Lamp'', DeviceClassInfoID = 100, SerialNumber = 43,
         FirmwareRevision = ''007.1'', ContainerObjectID = 5, ContainerObjectTypeID = 2\<rparr>,
        \<lparr>DeviceID = 4, Name = ''Lamp'', DeviceClassInfoID = 101, SerialNumber = 43,
         FirmwareRevision = ''007.1'', ContainerObjectID = 5, ContainerObjectTypeID = 2\<rparr>],
     DeviceClassInfo :=
       [\<lparr>CI_DeviceClassInfoID = 12, ModelNumber = ''Pico-1'', ShortDescription = ''Pico Remote''\<rparr>,
        \<lparr>CI_DeviceClassInfoID = 100, ModelNumber = ''Dimmer'', ShortDescription = ''A dimmer''\<rparr>,
        \<lparr>CI_DeviceClassInfoID = 101, ModelNumber = ''Switch'', ShortDescription = ''A switch''\<rparr>],
     Area := [\<lparr>AreaID = 5, Area_Name = ''Kitchen''\<rparr>],
     Button := [(2, 7)],
     ProgrammingModel := [7],
     Preset := [(8, 7)],
     PresetAssignment := [(8, 9, 15), (8, 11, 15)],
     Zone := [(9, 10), (11, 12)],
     SwitchLegController := [(10, 3), (12, 4)]\<rparr>"

text \<open>The same system before any area was created: the only area is \<open>root\<close>.\<close>

definition root_only_db :: database where
  "root_only_db = kitchen_db\<lparr>Area := [\<lparr>AreaID = 4, Area_Name = ''root''\<rparr>]\<rparr>"

text \<open>A file system whose only file is a support file with the given members.\<close>

definition support_fs :: "(string \<times> contents) list \<Rightarrow> filesystem" where
  "support_fs tar = [''support.tar.gz'' \<mapsto> TarGz tar]"

definition serial_name :: "programmed_result \<Rightarrow> int \<times> string" where
  "serial_name r = (case r of (name, serial, tag, descr) \<Rightarrow> (serial, name))"

section \<open>Facts about the formatting functions\<close>

declare hexstr.simps [simp del] decstr.simps [simp del]

lemma lstrip_decompose:
  "s = takeWhile (\<lambda>c. c \<in> set chars) s @ lstrip chars s"
  by (simp add: lstrip_def)

lemma lstrip_idem: "lstrip chars (lstrip chars s) = lstrip chars s"
  unfolding lstrip_def by (induction s) auto

lemma takeWhile_zero_replicate:
  "takeWhile (\<lambda>c. c = z) s = replicate (length (takeWhile (\<lambda>c. c = z) s)) z"
  by (induction s) auto

lemma strip_fw_rev_head: "strip_fw_rev s \<noteq> CHR ''0'' # t"
proof
  assume a: "strip_fw_rev s = CHR ''0'' # t"
  have "dropWhile (\<lambda>c. c = CHR ''0'') s = CHR ''0'' # t"
    using a by (simp add: strip_fw_rev_def lstrip_def)
  then have "hd (dropWhile (\<lambda>c. c = CHR ''0'') s) = CHR ''0''" "dropWhile (\<lambda>c. c = CHR ''0'') s \<noteq> []"
    by simp_all
  then show False using hd_dropWhile[of "\<lambda>c. c = CHR ''0''" s] by blast
qed

lemma hexdigit_value_all: "\<forall>d<16. hexvalue_of (hexdigit d) = d"
  unfolding hexdigit_def hexvalue_of_def
  by (simp add: numeral_eq_Suc All_less_Suc)

lemma hexdigit_value: "d < 16 \<Longrightarrow> hexvalue_of (hexdigit d) = d"
  using hexdigit_value_all by blast

lemma hexdigit_upper: "d < 16 \<Longrightarrow> hexdigit d \<in> set ''0123456789ABCDEF''"
  unfolding hexdigit_def by (rule nth_mem) simp

lemma hexval_append: "hexval (s @ [c]) = 16 * hexval s + hexvalue_of c"
  by (simp add: hexval_def)

lemma hexval_hexstr: "hexval (hexstr n) = n"
proof (induction n rule: hexstr.induct)
  case (1 n)
  show ?case
  proof (cases "n < 16")
    case True
    then show ?thesis by (subst hexstr.simps) (simp add: hexval_def hexdigit_value)
  next
    case False
    then have "hexval (hexstr (n div 16)) = n div 16" using 1 by simp
    then show ?thesis using False
      by (subst hexstr.simps) (simp add: hexval_append hexdigit_value)
  qed
qed

lemma hexstr_upper: "set (hexstr n) \<subseteq> set ''0123456789ABCDEF''"
proof (induction n rule: hexstr.induct)
  case (1 n)
  show ?case
  proof (cases "n < 16")
    case True
    then show ?thesis using hexdigit_upper[of n] by (subst hexstr.simps) simp
  next
    case False
    then have "set (hexstr (n div 16)) \<subseteq> set ''0123456789ABCDEF''" using 1 by simp
    moreover have "hexdigit (n mod 16) \<in> set ''0123456789ABCDEF''"
      by (rule hexdigit_upper) simp
    ultimately show ?thesis using False by (subst hexstr.simps) simp
  qed
qed

lemma hexstr_length: "0 < k \<Longrightarrow> n < 16 ^ k \<Longrightarrow> length (hexstr n) \<le> k"
proof (induction k arbitrary: n)
  case 0
  then show ?case by simp
next
  case (Suc k)
  show ?case
  proof (cases "n < 16")
    case True
    then show ?thesis by (subst hexstr.simps) simp
  next
    case False
    then have k: "0 < k" using Suc.prems by (cases k) auto
    have "n div 16 < 16 ^ k" using Suc.prems by (simp add: less_mult_imp_div_less mult.commute)
    then have "length (hexstr (n div 16)) \<le> k" using Suc.IH k by simp
    then show ?thesis using False by (subst hexstr.simps) simp
  qed
qed

lemma hexvalue_of_zero: "hexvalue_of (CHR ''0'') = 0"
  by (simp add: hexvalue_of_def)

lemma hexval_zeros: "hexval (replicate k (CHR ''0'') @ s) = hexval s"
  unfolding hexval_def by (induction k) (simp_all add: hexvalue_of_zero)

lemma hexval_zero_pad: "hexval (zero_pad w s) = hexval s"
  by (simp add: zero_pad_def hexval_zeros)

lemma fmt_08X_32bit:
  assumes "0 \<le> n" "n < 2 ^ 32"
  shows "length (fmt_08X n) = 8"
    and "set (fmt_08X n) \<subseteq> set ''0123456789ABCDEF''"
    and "int (hexval (fmt_08X n)) = n"
proof -
  have "nat n < 16 ^ 8" using assms by (simp add: nat_less_iff)
  then have "length (hexstr (nat n)) \<le> 8" by (intro hexstr_length) simp_all
  then show "length (fmt_08X n) = 8" using assms by (simp add: fmt_08X_def zero_pad_def)
  show "set (fmt_08X n) \<subseteq> set ''0123456789ABCDEF''"
    using assms hexstr_upper[of "nat n"] by (auto simp: fmt_08X_def zero_pad_def)
  show "int (hexval (fmt_08X n)) = n"
    using assms by (simp add: fmt_08X_def hexval_zero_pad hexval_hexstr)
qed

section \<open>The firmware revision\<close>

text \<open>
  Claim C6. The firmware revision shown for a load controller is the stored string without
  its leading run of \<open>0\<close> characters and nothing else is changed: the string is that run
  followed by what is shown, and what is shown does not start with \<open>0\<close>. The
  transformation is idempotent, and it maps \<open>007.1\<close> to \<open>7.1\<close>, \<open>000\<close> to the empty
  string and \<open>1.0\<close> to itself.
\<close>

theorem strip_fw_rev_leading_zeros:
  "s = replicate (length (takeWhile (\<lambda>c. c = CHR ''0'') s)) (CHR ''0'') @ strip_fw_rev s
   \<and> (\<forall>t. strip_fw_rev s \<noteq> CHR ''0'' # t)
   \<and> strip_fw_rev (strip_fw_rev s) = strip_fw_rev s
   \<and> strip_fw_rev ''007.1'' = ''7.1''
   \<and> strip_fw_rev ''000'' = ''''
   \<and> strip_fw_rev ''1.0'' = ''1.0''"
proof -
  have "s = takeWhile (\<lambda>c. c = CHR ''0'') s @ strip_fw_rev s"
    by (simp add: strip_fw_rev_def lstrip_def)
  then have 1: "s = replicate (length (takeWhile (\<lambda>c. c = CHR ''0'') s)) (CHR ''0'') @ strip_fw_rev s"
    using takeWhile_zero_replicate[of "CHR ''0''" s] by simp
  have 3: "strip_fw_rev (strip_fw_rev s) = strip_fw_rev s"
    by (simp add: strip_fw_rev_def lstrip_idem)
  have 4: "strip_fw_rev ''007.1'' = ''7.1''" "strip_fw_rev ''000'' = ''''" "strip_fw_rev ''1.0'' = ''1.0''"
    by (simp_all add: strip_fw_rev_def lstrip_def)
  show ?thesis using 1 strip_fw_rev_head 3 4 by blast
qed

text \<open>The theorem at the revision \<open>0012.030\<close>.\<close>

theorem strip_fw_rev_leading_zeros_witness:
  "''0012.030'' = replicate 2 (CHR ''0'') @ strip_fw_rev ''0012.030''
   \<and> strip_fw_rev ''0012.030'' = ''12.030''
   \<and> strip_fw_rev (strip_fw_rev ''0012.030'') = ''12.030''"
  using strip_fw_rev_leading_zeros [of "''0012.030''"]
  by (simp add: strip_fw_rev_def lstrip_def numeral_2_eq_2)

lemmas db_simps = root_only_db_def kitchen_db_def twin_db_def empty_database_def
lemmas query_simps = select_hub_def select_wifi_def select_areas_def select_devices_def
  select_pico_def select_occupancy_def select_daylight_def
lemmas class_ids = pico_device_class_info_ids_def occ_sensor_device_class_info_ids_def
  daylight_sensor_device_class_info_ids_def

lemma replicate_numeral_unfold: "replicate (numeral k) x = x # replicate (pred_numeral k) x"
  by (simp add: numeral_eq_Suc)

lemmas fmt_simps = fmt_08X_def fmt_d_def zero_pad_def hexstr.simps decstr.simps hexdigit_def
  decdigit_def replicate_numeral_unfold

lemma fmt_08X_42: "fmt_08X 42 = ''0000002A''"
  by (simp add: fmt_simps)
lemma fmt_08X_43: "fmt_08X 43 = ''0000002B''"
  by (simp add: fmt_simps)
lemma fmt_08X_hub: "fmt_08X 27439044 = ''01A2AFC4''"
  by (simp add: fmt_simps)
lemma fmt_d_small: "fmt_d 0 = ''0''" "fmt_d 1 = ''1''" "fmt_d 2 = ''2''"
  by (simp_all add: fmt_simps)

section \<open>Facts about the report\<close>

lemma dump_areas_Py2:
  "dump_areas Py2 db area_rows =
     (concat (map (\<lambda>(area_id, area_name). area_events db area_id area_name) area_rows), Returned)"
  by (induction area_rows) auto

lemma dump_areas_Py3:
  "dump_areas Py3 db area_rows =
     (case area_rows of
        [] \<Rightarrow> ([], Returned)
      | (area_id, area_name) # rest \<Rightarrow>
          ([Execute (SelectDevices area_id), Print ''<div id= '%s' class= 'area'>''],
           Raised TypeError))"
  by (cases area_rows) auto

lemma select_areas_empty_iff:
  "select_areas db = [] \<longleftrightarrow> (\<forall>a\<in>set (Area db). Area_Name a = ''root'')"
  unfolding select_areas_def by (induction "Area db") (auto simp: filter_empty_conv)



lemma dumpproject_Py2:
  "dumpproject Py2 (Some db) =
     (header_events @ hub_events db @ wifi_events db @ links_events @ [Execute SelectAreas]
      @ concat (map (\<lambda>(area_id, area_name). area_events db area_id area_name) (select_areas db))
      @ [Close], Returned)"
  by (simp add: dumpproject_def dump_areas_Py2)

lemma dumpproject_no_areas:
  "select_areas db = [] \<Longrightarrow>
   dumpproject ver (Some db) =
     (header_events @ hub_events db @ wifi_events db @ links_events @ [Execute SelectAreas, Close],
      Returned)"
  by (simp add: dumpproject_def)

lemma dumpproject_Py3_area:
  "select_areas db = (area_id, area_name) # rest \<Longrightarrow>
   dumpproject Py3 (Some db) =
     (header_events @ hub_events db @ wifi_events db @ links_events
      @ [Execute SelectAreas, Execute (SelectDevices area_id),
         Print ''<div id= '%s' class= 'area'>''],
      Raised TypeError)"
  by (simp add: dumpproject_def)

text \<open>
  Claim C1. Under Python 3, where \<^verbatim>\<open>print\<close> is a function: for every database with an
  area whose name is not \<open>root\<close>, \<^verbatim>\<open>dumpproject\<close> raises \<^verbatim>\<open>TypeError\<close>. The run
  is the header, the hub and Wifi sections, the two links, the query for the areas, the query
  for the devices of the first such area and the literal text
  \<^verbatim>\<open><div id= '%s' class= 'area'>\<close>; nothing follows, so no device is printed. The run
  returns exactly when every area is named \<open>root\<close>.
\<close>

theorem dumpproject_Py3_TypeError:
  "((\<exists>a\<in>set (Area db). Area_Name a \<noteq> ''root'') \<longrightarrow>
      (\<exists>area_id.
         dumpproject Py3 (Some db) =
           (header_events @ hub_events db @ wifi_events db @ links_events
            @ [Execute SelectAreas, Execute (SelectDevices area_id),
               Print ''<div id= '%s' class= 'area'>''],
            Raised TypeError)))
   \<and> (snd (dumpproject Py3 (Some db)) = Returned
        \<longleftrightarrow> (\<forall>a\<in>set (Area db). Area_Name a = ''root''))"
proof (cases "select_areas db")
  case Nil
  then show ?thesis
    using select_areas_empty_iff[of db] by (auto simp: dumpproject_no_areas)
next
  case (Cons row rest)
  obtain area_id area_name where row: "row = (area_id, area_name)" by (cases row)
  have "select_areas db \<noteq> []" using Cons by simp
  then have "\<not> (\<forall>a\<in>set (Area db). Area_Name a = ''root'')"
    using select_areas_empty_iff[of db] by simp
  then show ?thesis
    using dumpproject_Py3_area[of db area_id area_name rest] Cons row by auto
qed

lemma kitchen_areas: "select_areas kitchen_db = [(5, ''Kitchen'')]"
  by (simp add: db_simps query_simps)

lemma kitchen_hub: "hub_events kitchen_db =
    [Execute SelectHub, Print ''Hub Serial: 01A2AFC4'', Print ''<br />'']"
  by (simp add: hub_events_def hub_lines_def select_hub_def db_simps fmt_08X_hub)

lemma kitchen_wifi: "wifi_events kitchen_db =
    Execute SelectWifi # wifi_lines ''vive''"
  by (simp add: wifi_events_def select_wifi_def db_simps)

text \<open>The theorem at the database \<open>kitchen_db\<close>, and at the empty database.\<close>

theorem dumpproject_Py3_TypeError_witness:
  "dumpproject Py3 (Some kitchen_db) =
     (header_events
      @ [Execute SelectHub, Print ''Hub Serial: 01A2AFC4'', Print ''<br />'', Execute SelectWifi]
      @ wifi_lines ''vive'' @ links_events
      @ [Execute SelectAreas, Execute (SelectDevices 5), Print ''<div id= '%s' class= 'area'>''],
      Raised TypeError)
   \<and> snd (dumpproject Py3 (Some kitchen_db)) \<noteq> Returned
   \<and> snd (dumpproject Py3 (Some empty_database)) = Returned"
  using dumpproject_Py3_TypeError [of kitchen_db] dumpproject_Py3_TypeError [of empty_database]
  by (simp add: dumpproject_Py3_area[OF kitchen_areas] kitchen_hub kitchen_wifi)
    (simp add: db_simps)


subsection \<open>The report for the example database\<close>

lemma boilerplate_hd: "hd boilerplate = CHR 10"
  by (simp add: boilerplate_def nl_def)

lemma boilerplate_not_area_line: "boilerplate \<noteq> CHR ''A'' # rest"
proof
  assume "boilerplate = CHR ''A'' # rest"
  then have "hd boilerplate = CHR ''A''" by (metis list.sel(1))
  then show False using boilerplate_hd by simp
qed

lemma printed_append: "printed (xs @ ys) = printed xs @ printed ys"
  by (simp add: printed_def)

lemma printed_Cons:
  "printed (Print s # xs) = s # printed xs"
  "printed (Execute q # xs) = printed xs"
  "printed (Connect # xs) = printed xs"
  "printed (Close # xs) = printed xs"
  "printed [] = []"
  by (simp_all add: printed_def)

lemma kitchen_devices:
  "select_devices kitchen_db 5 =
     [(2, ''Remote'', 12, 42, ''Pico-1'', ''Pico Remote'', ''001.0''),
      (3, ''Lamp'', 100, 43, ''Dimmer'', ''A dimmer'', ''007.1'')]"
  by (simp add: db_simps query_simps)

lemma kitchen_pico: "select_pico kitchen_db 2 = [(''Lamp'', 43, ''Dimmer'', ''A dimmer'')]"
  by (simp add: db_simps query_simps)

lemma kitchen_area_events:
  "printed (area_events kitchen_db 5 ''Kitchen'') =
     [''<div id= '' @ apos @ ''Kitchen'' @ apos @ '' class= 'area'>'',
      ''Area: Kitchen (There are 2 total devices in this Area)'',
      ''<div id='' @ apos @ ''Kitchen_devices' class= 'devices'><ul>'',
      ''<div id='0x0000002A'' @ apos @ '' class= 'control_device'>'',
      ''    Pico-1: Remote (SN: 0000002A) (This Pico controls 1 devices)'',
      ''</div><div id ='0x0000002A_assigned_devices' class='assigned_devices'><ul>'',
      ''<li>'',
      ''        Dimmer: Lamp (SN: 0000002B)'',
      ''</li>'',
      ''</ul></div>'',
      ''<div id='0x0000002B'' @ apos @ '' class='load_controller'>'',
      ''    Dimmer: Lamp (SN: 0000002B) (v7.1)'',
      ''</div>'',
      ''</ul></div></div>'']"
  by (simp add: area_events_def kitchen_devices dump_device_def class_ids kitchen_pico
      control_device_lines_def programmed_device_lines_def load_controller_lines_def
      fmt_08X_42 fmt_08X_43 fmt_d_small printed_Cons strip_fw_rev_def lstrip_def)

text \<open>
  Claim C3, at a database whose only area besides \<open>root\<close> is \<open>Kitchen\<close>, with two devices.
  Under Python 3 the output ends with the literal text of line 191 and the run raises
  \<^verbatim>\<open>TypeError\<close>: the heading of line 192 with the device count is not printed. (Under
  Python 2 it is.)
\<close>

theorem dumpproject_Py3_kitchen:
  "printed (fst (dumpproject Py3 (Some kitchen_db))) =
     [boilerplate,
      ''<input type='button' value='Print' onClick='window.print()'>'',
      ''<div id='hub_info'>'',
      ''Hub Serial: 01A2AFC4'',
      ''<br />'',
      ''Wifi Name: vive'',
      ''<br /><textarea rows='4' cols='30' placeholder='Enter notes here, e.g. The WiFi Password is Lutron123!'></textarea><br />'',
      ''<a href ='#' id ='showall' title='Expand All Areas'>&#8650;</a> | <a href ='#' id ='hideall' title='Collapse All Areas'>&#8649;</a>'',
      ''</div><br /><div id='areas'>'',
      ''<div id= '%s' class= 'area'>'']
   \<and> snd (dumpproject Py3 (Some kitchen_db)) = Raised TypeError
   \<and> ''Area: Kitchen (There are 2 total devices in this Area)''
         \<notin> set (printed (fst (dumpproject Py3 (Some kitchen_db))))
   \<and> ''Area: Kitchen (There are 2 total devices in this Area)''
         \<in> set (printed (fst (dumpproject Py2 (Some kitchen_db))))"
proof -
  have 1: "printed (fst (dumpproject Py3 (Some kitchen_db))) =
     [boilerplate,
      ''<input type='button' value='Print' onClick='window.print()'>'',
      ''<div id='hub_info'>'',
      ''Hub Serial: 01A2AFC4'',
      ''<br />'',
      ''Wifi Name: vive'',
      ''<br /><textarea rows='4' cols='30' placeholder='Enter notes here, e.g. The WiFi Password is Lutron123!'></textarea><br />'',
      ''<a href ='#' id ='showall' title='Expand All Areas'>&#8650;</a> | <a href ='#' id ='hideall' title='Collapse All Areas'>&#8649;</a>'',
      ''</div><br /><div id='areas'>'',
      ''<div id= '%s' class= 'area'>'']"
    by (simp add: dumpproject_Py3_area[OF kitchen_areas] kitchen_hub kitchen_wifi
        header_events_def wifi_lines_def links_events_def printed_Cons)
  have 2: "snd (dumpproject Py3 (Some kitchen_db)) = Raised TypeError"
    by (simp add: dumpproject_Py3_area[OF kitchen_areas])
  have 3: "''Area: Kitchen (There are 2 total devices in this Area)''
         \<notin> set (printed (fst (dumpproject Py3 (Some kitchen_db))))"
    unfolding 1
    using boilerplate_not_area_line[of "''rea: Kitchen (There are 2 total devices in this Area)''"]
    by simp
  have 4: "''Area: Kitchen (There are 2 total devices in this Area)''
         \<in> set (printed (fst (dumpproject Py2 (Some kitchen_db))))"
    by (simp add: dumpproject_Py2 kitchen_areas printed_append printed_Cons kitchen_area_events)
  show ?thesis using 1 2 3 4 by blast
qed


section \<open>The hub section\<close>

lemma concat_map_if:
  "concat (map (\<lambda>x. if P x then [f x] else []) xs) = map f (filter P xs)"
  by (induction xs) simp_all

lemma select_hub_filter:
  "select_hub db = map (\<lambda>d. (Name d, SerialNumber d)) (filter (\<lambda>d. DeviceID d = 1) (Device db))"
  by (simp add: select_hub_def concat_map_if)

lemma printed_hub_lines:
  "printed (concat (map (\<lambda>d. hub_lines (Name d, SerialNumber d)) ds)) =
     concat (map (\<lambda>d. [''Hub Serial: '' @ fmt_08X (SerialNumber d), ''<br />'']) ds)"
  by (induction ds) (simp_all add: hub_lines_def printed_append printed_Cons)

text \<open>
  Claim C7. After the header the run executes the hub query, prints the hub lines and goes on
  to the Wifi section, whatever the hub query returned. What is printed for the hub query
  is, for each \<^verbatim>\<open>Device\<close> row with \<^verbatim>\<open>DeviceID\<close> 1, the text \<open>Hub Serial: \<close> followed by
  the formatted serial number, and a line break. For a serial number from 0 to \<open>2\<^sup>3\<^sup>2 - 1\<close>
  the formatted text has exactly 8 characters, all of them digits or uppercase letters
  \<open>A\<close> to \<open>F\<close>, and read as a hexadecimal numeral it is the serial number. When no row
  has \<^verbatim>\<open>DeviceID\<close> 1, the hub query is executed and nothing is printed for it.
\<close>

theorem hub_serial_line:
  "(\<exists>rest. fst (dumpproject ver (Some db)) =
            header_events @ hub_events db @ wifi_events db @ links_events @ rest)
   \<and> printed (hub_events db) =
         concat (map (\<lambda>d. [''Hub Serial: '' @ fmt_08X (SerialNumber d), ''<br />''])
                     (filter (\<lambda>d. DeviceID d = 1) (Device db)))
   \<and> (\<forall>d\<in>set (Device db).
          DeviceID d = 1 \<and> 0 \<le> SerialNumber d \<and> SerialNumber d < 2 ^ 32 \<longrightarrow>
            length (fmt_08X (SerialNumber d)) = 8
            \<and> set (fmt_08X (SerialNumber d)) \<subseteq> set ''0123456789ABCDEF''
            \<and> int (hexval (fmt_08X (SerialNumber d))) = SerialNumber d)
   \<and> ((\<forall>d\<in>set (Device db). DeviceID d \<noteq> 1) \<longrightarrow> hub_events db = [Execute SelectHub])"
proof -
  have 1: "\<exists>rest. fst (dumpproject ver (Some db)) =
            header_events @ hub_events db @ wifi_events db @ links_events @ rest"
    by (simp add: dumpproject_def split: prod.splits)
  have 2: "printed (hub_events db) =
         concat (map (\<lambda>d. [''Hub Serial: '' @ fmt_08X (SerialNumber d), ''<br />''])
                     (filter (\<lambda>d. DeviceID d = 1) (Device db)))"
    by (simp add: hub_events_def printed_Cons printed_hub_lines select_hub_filter comp_def)
  have 3: "\<forall>d\<in>set (Device db).
          DeviceID d = 1 \<and> 0 \<le> SerialNumber d \<and> SerialNumber d < 2 ^ 32 \<longrightarrow>
            length (fmt_08X (SerialNumber d)) = 8
            \<and> set (fmt_08X (SerialNumber d)) \<subseteq> set ''0123456789ABCDEF''
            \<and> int (hexval (fmt_08X (SerialNumber d))) = SerialNumber d"
    using fmt_08X_32bit by blast
  have 4: "(\<forall>d\<in>set (Device db). DeviceID d \<noteq> 1) \<longrightarrow> hub_events db = [Execute SelectHub]"
    by (simp add: hub_events_def select_hub_filter filter_empty_conv)
  show ?thesis using 1 2 3 4 by blast
qed

text \<open>The theorem at \<open>kitchen_db\<close>, whose hub has the serial number 27439044, and at the
  empty database, which has no hub.\<close>

theorem hub_serial_line_witness:
  "printed (hub_events kitchen_db) = [''Hub Serial: 01A2AFC4'', ''<br />'']
   \<and> length (fmt_08X 27439044) = 8
   \<and> hexval (fmt_08X 27439044) = 27439044
   \<and> hub_events empty_database = [Execute SelectHub]"
  using hub_serial_line [of Py3 kitchen_db] hub_serial_line [of Py3 empty_database]
  by (simp add: db_simps fmt_08X_hub)

section \<open>The device loop\<close>

lemma executed_Cons:
  "executed (Print s # xs) = executed xs"
  "executed (Execute q # xs) = q # executed xs"
  "executed (Connect # xs) = executed xs"
  "executed (Close # xs) = executed xs"
  "executed [] = []"
  by (simp_all add: executed_def)

text \<open>
  The last branch of the device loop. For a device row whose class-info id is in none of
  the three lists, the body of the loop prints the three lines of the load-controller
  format: the opening \<^verbatim>\<open>div\<close> with the serial number, the line with the designer tag, the
  name, the serial number and the firmware revision without its leading zeros, and the
  closing \<^verbatim>\<open>div\<close>. It executes no query. The serial number is formatted by \<^verbatim>\<open>%08X\<close>: 8
  uppercase hexadecimal digits when it is from 0 to \<open>2\<^sup>3\<^sup>2 - 1\<close>.
\<close>

lemma load_controller_rendering:
  assumes "device_class_info_id \<notin> set pico_device_class_info_ids"
    and "device_class_info_id \<notin> set occ_sensor_device_class_info_ids"
    and "device_class_info_id \<notin> set daylight_sensor_device_class_info_ids"
  shows "dump_device db (device_id, device_name, device_class_info_id, device_serial_number,
             device_designer_tag, device_short_descr, device_fw_rev) =
           [Print (''<div id='0x'' @ fmt_08X device_serial_number @ apos
                   @ '' class='load_controller'>''),
            Print (''    '' @ device_designer_tag @ '': '' @ device_name @ '' (SN: ''
                   @ fmt_08X device_serial_number @ '') (v''
                   @ lstrip ''0'' device_fw_rev @ '')''),
            Print ''</div>'']
         \<and> executed (dump_device db (device_id, device_name, device_class_info_id,
               device_serial_number, device_designer_tag, device_short_descr, device_fw_rev)) = []
         \<and> (0 \<le> device_serial_number \<and> device_serial_number < 2 ^ 32 \<longrightarrow>
               length (fmt_08X device_serial_number) = 8
               \<and> set (fmt_08X device_serial_number) \<subseteq> set ''0123456789ABCDEF'')"
  using assms fmt_08X_32bit[of device_serial_number]
  by (simp add: dump_device_def load_controller_lines_def strip_fw_rev_def executed_Cons)

text \<open>The body of the loop at the dimmer of \<open>kitchen_db\<close>, whose class-info id is 100.\<close>

lemma load_controller_rendering_kitchen:
  "dump_device kitchen_db (3, ''Lamp'', 100, 43, ''Dimmer'', ''A dimmer'', ''007.1'') =
     [Print (''<div id='0x0000002B'' @ apos @ '' class='load_controller'>''),
      Print ''    Dimmer: Lamp (SN: 0000002B) (v7.1)'',
      Print ''</div>'']
   \<and> executed (dump_device kitchen_db
         (3, ''Lamp'', 100, 43, ''Dimmer'', ''A dimmer'', ''007.1'')) = []"
proof -
  have 1: "(100::int) \<notin> set pico_device_class_info_ids"
    and 2: "(100::int) \<notin> set occ_sensor_device_class_info_ids"
    and 3: "(100::int) \<notin> set daylight_sensor_device_class_info_ids"
    by (simp_all add: class_ids)
  show ?thesis
    using load_controller_rendering [OF 1 2 3, where db = kitchen_db and device_id = 3
        and device_name = "''Lamp''" and device_serial_number = 43
        and device_designer_tag = "''Dimmer''" and device_short_descr = "''A dimmer''"
        and device_fw_rev = "''007.1''"]
    by (simp add: fmt_08X_43 lstrip_def executed_Cons)
qed


text \<open>
  Under Python 3 no run reaches the device loop: what is printed is the header, the hub and
  Wifi lines, the two lines of links and, when there is an area, the literal text of line
  191. The closing \<^verbatim>\<open>div\<close> of a load controller (line 332) is none of these.
\<close>

lemma hub_events_prints:
  "Print s \<in> set (hub_events db) \<Longrightarrow> (\<exists>x. s = ''Hub Serial: '' @ x) \<or> s = ''<br />''"
  by (auto simp: hub_events_def hub_lines_def)

lemma wifi_events_prints:
  "Print s \<in> set (wifi_events db) \<Longrightarrow>
     (\<exists>x. s = ''Wifi Name: '' @ x) \<or> (\<exists>x. s = ''<br /><textarea'' @ x)"
  by (auto simp: wifi_events_def wifi_lines_def)

lemma boilerplate_not_close_div: "boilerplate \<noteq> ''</div>''"
proof
  assume "boilerplate = ''</div>''"
  then have "hd boilerplate = CHR ''<''" by (metis list.sel(1))
  then show False using boilerplate_hd by simp
qed

lemma dumpproject_Py3_no_close_div:
  "Print ''</div>'' \<notin> set (fst (dumpproject Py3 (Some db)))"
proof
  assume a: "Print ''</div>'' \<in> set (fst (dumpproject Py3 (Some db)))"
  have h: "Print ''</div>'' \<notin> set (hub_events db)"
    using hub_events_prints[of "''</div>''" db] by auto
  have w: "Print ''</div>'' \<notin> set (wifi_events db)"
    using wifi_events_prints[of "''</div>''" db] by auto
  have e: "Print ''</div>'' \<notin> set header_events"
    using boilerplate_not_close_div by (auto simp: header_events_def)
  have l: "Print ''</div>'' \<notin> set links_events"
    by (simp add: links_events_def)
  show False
  proof (cases "select_areas db")
    case Nil
    then show False using a h w e l by (simp add: dumpproject_no_areas)
  next
    case (Cons row rest)
    obtain area_id area_name where "row = (area_id, area_name)" by (cases row)
    then show False
      using a h w e l Cons by (simp add: dumpproject_Py3_area[of db area_id area_name rest])
  qed
qed

lemma kitchen_Py3_printed:
  "printed (fst (dumpproject Py3 (Some kitchen_db))) =
     [boilerplate,
      ''<input type='button' value='Print' onClick='window.print()'>'',
      ''<div id='hub_info'>'',
      ''Hub Serial: 01A2AFC4'',
      ''<br />'',
      ''Wifi Name: vive'',
      ''<br /><textarea rows='4' cols='30' placeholder='Enter notes here, e.g. The WiFi Password is Lutron123!'></textarea><br />'',
      ''<a href ='#' id ='showall' title='Expand All Areas'>&#8650;</a> | <a href ='#' id ='hideall' title='Collapse All Areas'>&#8649;</a>'',
      ''</div><br /><div id='areas'>'',
      ''<div id= '%s' class= 'area'>'']"
  by (simp add: dumpproject_Py3_area[OF kitchen_areas] kitchen_hub kitchen_wifi
      header_events_def wifi_lines_def links_events_def printed_Cons)

lemma boilerplate_not_device_line: "boilerplate \<noteq> CHR '' '' # rest"
proof
  assume "boilerplate = CHR '' '' # rest"
  then have "hd boilerplate = CHR '' ''" by (metis list.sel(1))
  then show False using boilerplate_hd by simp
qed

text \<open>
  Claim C9, at \<open>kitchen_db\<close> under Python 3. The dimmer \<open>Lamp\<close> has the class-info id 100,
  which is in none of the three lists, and it is a row of the devices query of the area
  \<open>Kitchen\<close>. The run raises \<^verbatim>\<open>TypeError\<close> at line 191, before the device loop: the report
  has none of the three load-controller lines of the dimmer, though the body of the loop
  would print them. The queries executed are those for the hub, the Wifi settings, the
  areas and the devices of the area; no programming query is executed. (Under Python 2 the
  three lines are in the report.)
\<close>

theorem dumpproject_Py3_load_controller_not_rendered:
  "(3, ''Lamp'', 100, 43, ''Dimmer'', ''A dimmer'', ''007.1'') \<in> set (select_devices kitchen_db 5)
   \<and> (100::int) \<notin> set pico_device_class_info_ids
   \<and> (100::int) \<notin> set occ_sensor_device_class_info_ids
   \<and> (100::int) \<notin> set daylight_sensor_device_class_info_ids
   \<and> printed (dump_device kitchen_db
         (3, ''Lamp'', 100, 43, ''Dimmer'', ''A dimmer'', ''007.1'')) =
       [''<div id='0x0000002B'' @ apos @ '' class='load_controller'>'',
        ''    Dimmer: Lamp (SN: 0000002B) (v7.1)'',
        ''</div>'']
   \<and> snd (dumpproject Py3 (Some kitchen_db)) = Raised TypeError
   \<and> ''<div id='0x0000002B'' @ apos @ '' class='load_controller'>''
         \<notin> set (printed (fst (dumpproject Py3 (Some kitchen_db))))
   \<and> ''    Dimmer: Lamp (SN: 0000002B) (v7.1)''
         \<notin> set (printed (fst (dumpproject Py3 (Some kitchen_db))))
   \<and> ''</div>'' \<notin> set (printed (fst (dumpproject Py3 (Some kitchen_db))))
   \<and> executed (fst (dumpproject Py3 (Some kitchen_db))) =
       [SelectHub, SelectWifi, SelectAreas, SelectDevices 5]
   \<and> ''    Dimmer: Lamp (SN: 0000002B) (v7.1)''
         \<in> set (printed (fst (dumpproject Py2 (Some kitchen_db))))"
proof -
  have 1: "(3, ''Lamp'', 100, 43, ''Dimmer'', ''A dimmer'', ''007.1'')
      \<in> set (select_devices kitchen_db 5)"
    by (simp add: kitchen_devices)
  have 2: "(100::int) \<notin> set pico_device_class_info_ids"
    "(100::int) \<notin> set occ_sensor_device_class_info_ids"
    "(100::int) \<notin> set daylight_sensor_device_class_info_ids"
    by (simp_all add: class_ids)
  have 3: "printed (dump_device kitchen_db
         (3, ''Lamp'', 100, 43, ''Dimmer'', ''A dimmer'', ''007.1'')) =
       [''<div id='0x0000002B'' @ apos @ '' class='load_controller'>'',
        ''    Dimmer: Lamp (SN: 0000002B) (v7.1)'',
        ''</div>'']"
    by (simp add: dump_device_def class_ids load_controller_lines_def strip_fw_rev_def
        lstrip_def fmt_08X_43 printed_Cons)
  have 4: "snd (dumpproject Py3 (Some kitchen_db)) = Raised TypeError"
    by (simp add: dumpproject_Py3_area[OF kitchen_areas])
  have 5: "''<div id='0x0000002B'' @ apos @ '' class='load_controller'>''
         \<notin> set (printed (fst (dumpproject Py3 (Some kitchen_db))))"
  proof -
    have h: "hd (''<div id='0x0000002B'' @ apos @ '' class='load_controller'>'') = CHR ''<''"
      by simp
    have "boilerplate \<noteq> ''<div id='0x0000002B'' @ apos @ '' class='load_controller'>''"
    proof
      assume eq: "boilerplate = ''<div id='0x0000002B'' @ apos @ '' class='load_controller'>''"
      have "hd boilerplate = hd (''<div id='0x0000002B'' @ apos @ '' class='load_controller'>'')"
        by (rule arg_cong[OF eq])
      then show False using h boilerplate_hd by simp
    qed
    then show ?thesis
      unfolding kitchen_Py3_printed by (auto simp: apos_def)
  qed
  have 6: "''    Dimmer: Lamp (SN: 0000002B) (v7.1)''
         \<notin> set (printed (fst (dumpproject Py3 (Some kitchen_db))))"
    unfolding kitchen_Py3_printed
    using boilerplate_not_device_line[of "''   Dimmer: Lamp (SN: 0000002B) (v7.1)''"]
    by simp
  have 7: "''</div>'' \<notin> set (printed (fst (dumpproject Py3 (Some kitchen_db))))"
    unfolding kitchen_Py3_printed
    using boilerplate_not_close_div by simp
  have 8: "executed (fst (dumpproject Py3 (Some kitchen_db))) =
       [SelectHub, SelectWifi, SelectAreas, SelectDevices 5]"
    by (simp add: dumpproject_Py3_area[OF kitchen_areas] kitchen_hub kitchen_wifi
        header_events_def wifi_lines_def links_events_def executed_def)
  have 9: "''    Dimmer: Lamp (SN: 0000002B) (v7.1)''
         \<in> set (printed (fst (dumpproject Py2 (Some kitchen_db))))"
    by (simp add: dumpproject_Py2 kitchen_areas printed_append printed_Cons kitchen_area_events)
  show ?thesis using 1 2 3 4 5 6 7 8 9 by blast
qed

section \<open>The rows of the queries\<close>

lemma select_devices_rows:
  "r \<in> set (select_devices db area_id) \<Longrightarrow>
     \<exists>d\<in>set (Device db). \<exists>ci\<in>set (DeviceClassInfo db).
       DeviceClassInfoID d = CI_DeviceClassInfoID ci
       \<and> r = (DeviceID d, Name d, DeviceClassInfoID d, SerialNumber d, ModelNumber ci,
              ShortDescription ci, FirmwareRevision d)"
  by (fastforce simp: select_devices_def split: if_splits)

lemma select_pico_rows:
  "p \<in> set (select_pico db device_id) \<Longrightarrow>
     \<exists>d\<in>set (Device db). \<exists>ci\<in>set (DeviceClassInfo db).
       DeviceClassInfoID d = CI_DeviceClassInfoID ci
       \<and> p = (Name d, SerialNumber d, ModelNumber ci, ShortDescription ci)"
  by (auto simp: select_pico_def split: if_splits)

lemma select_occupancy_rows:
  "p \<in> set (select_occupancy db device_id) \<Longrightarrow>
     \<exists>d\<in>set (Device db). \<exists>ci\<in>set (DeviceClassInfo db).
       DeviceClassInfoID d = CI_DeviceClassInfoID ci
       \<and> p = (Name d, SerialNumber d, ModelNumber ci, ShortDescription ci)"
  by (auto simp: select_occupancy_def split: if_splits)

lemma select_daylight_rows:
  "p \<in> set (select_daylight db device_id) \<Longrightarrow>
     \<exists>d\<in>set (Device db). \<exists>ci\<in>set (DeviceClassInfo db).
       DeviceClassInfoID d = CI_DeviceClassInfoID ci
       \<and> p = (Name d, SerialNumber d, ModelNumber ci, ShortDescription ci)"
  by (auto simp: select_daylight_def split: if_splits)

lemma printed_programmed_device_lines:
  "printed (programmed_device_lines (name, serial, tag, descr)) =
     [''<li>'', ''        '' @ tag @ '': '' @ name @ '' (SN: '' @ fmt_08X serial @ '')'', ''</li>'']"
  by (simp add: programmed_device_lines_def printed_Cons)

lemma dump_device_heading:
  "\<exists>rest. printed (dump_device db (device_id, device_name, device_class_info_id,
            device_serial_number, device_designer_tag, device_short_descr, device_fw_rev)) ! 1 =
          ''    '' @ device_designer_tag @ '': '' @ device_name @ '' (SN: ''
          @ fmt_08X device_serial_number @ rest"
  by (simp add: dump_device_def control_device_lines_def load_controller_lines_def printed_Cons
      printed_append)


text \<open>
  Claim C10. Every row of the devices query is made of a \<^verbatim>\<open>Device\<close> row and of a
  \<^verbatim>\<open>DeviceClassInfo\<close> row with the same class-info id, and its fifth column, which the loop
  calls the designer tag, is the \<^verbatim>\<open>ModelNumber\<close> of the latter; the same holds for the third
  column of every row of the three programming queries. The second line printed for a
  device (its heading, in all four branches) starts with that tag, then the name and the
  serial number; the item printed for a controlled device shows its tag, name and serial
  number. The \<^verbatim>\<open>ShortDescription\<close> column is not printed: what is printed for a device row, or
  for a row of a programming query, is the same whatever that column holds.
\<close>

theorem designer_tag_is_model_number:
  "(\<forall>r\<in>set (select_devices db area_id).
      \<exists>d\<in>set (Device db). \<exists>ci\<in>set (DeviceClassInfo db).
        DeviceClassInfoID d = CI_DeviceClassInfoID ci
        \<and> r = (DeviceID d, Name d, DeviceClassInfoID d, SerialNumber d, ModelNumber ci,
               ShortDescription ci, FirmwareRevision d))
   \<and> (\<forall>p\<in>set (select_pico db i) \<union> set (select_occupancy db i) \<union> set (select_daylight db i).
        \<exists>d\<in>set (Device db). \<exists>ci\<in>set (DeviceClassInfo db).
          DeviceClassInfoID d = CI_DeviceClassInfoID ci
          \<and> p = (Name d, SerialNumber d, ModelNumber ci, ShortDescription ci))
   \<and> (\<exists>rest. printed (dump_device db (device_id, device_name, device_class_info_id,
            device_serial_number, device_designer_tag, device_short_descr, device_fw_rev)) ! 1 =
          ''    '' @ device_designer_tag @ '': '' @ device_name @ '' (SN: ''
          @ fmt_08X device_serial_number @ rest)
   \<and> printed (programmed_device_lines (programmed_device_name, programmed_device_serial_number,
         programmed_device_designer_tag, programmed_device_short_descr)) =
       [''<li>'',
        ''        '' @ programmed_device_designer_tag @ '': '' @ programmed_device_name
        @ '' (SN: '' @ fmt_08X programmed_device_serial_number @ '')'',
        ''</li>'']
   \<and> dump_device db (device_id, device_name, device_class_info_id, device_serial_number,
         device_designer_tag, device_short_descr, device_fw_rev) =
       dump_device db (device_id, device_name, device_class_info_id, device_serial_number,
         device_designer_tag, other_short_descr, device_fw_rev)
   \<and> programmed_device_lines (programmed_device_name, programmed_device_serial_number,
         programmed_device_designer_tag, programmed_device_short_descr) =
       programmed_device_lines (programmed_device_name, programmed_device_serial_number,
         programmed_device_designer_tag, other_short_descr)"
proof -
  have 1: "\<forall>r\<in>set (select_devices db area_id).
      \<exists>d\<in>set (Device db). \<exists>ci\<in>set (DeviceClassInfo db).
        DeviceClassInfoID d = CI_DeviceClassInfoID ci
        \<and> r = (DeviceID d, Name d, DeviceClassInfoID d, SerialNumber d, ModelNumber ci,
               ShortDescription ci, FirmwareRevision d)"
    using select_devices_rows by blast
  have 2: "\<forall>p\<in>set (select_pico db i) \<union> set (select_occupancy db i) \<union> set (select_daylight db i).
        \<exists>d\<in>set (Device db). \<exists>ci\<in>set (DeviceClassInfo db).
          DeviceClassInfoID d = CI_DeviceClassInfoID ci
          \<and> p = (Name d, SerialNumber d, ModelNumber ci, ShortDescription ci)"
    using select_pico_rows select_occupancy_rows select_daylight_rows by blast
  have 5: "dump_device db (device_id, device_name, device_class_info_id, device_serial_number,
         device_designer_tag, device_short_descr, device_fw_rev) =
       dump_device db (device_id, device_name, device_class_info_id, device_serial_number,
         device_designer_tag, other_short_descr, device_fw_rev)"
    by (simp add: dump_device_def)
  have 6: "programmed_device_lines (programmed_device_name, programmed_device_serial_number,
         programmed_device_designer_tag, programmed_device_short_descr) =
       programmed_device_lines (programmed_device_name, programmed_device_serial_number,
         programmed_device_designer_tag, other_short_descr)"
    by (simp add: programmed_device_lines_def)
  show ?thesis
    using 1 2 dump_device_heading printed_programmed_device_lines 5 6 by blast
qed

text \<open>The theorem at the Pico remote of \<open>kitchen_db\<close> and at the dimmer it controls.\<close>

theorem designer_tag_is_model_number_witness:
  "select_devices kitchen_db 5 ! 0 =
     (2, ''Remote'', 12, 42, ModelNumber (DeviceClassInfo kitchen_db ! 1),
      ShortDescription (DeviceClassInfo kitchen_db ! 1), ''001.0'')
   \<and> printed (dump_device kitchen_db (2, ''Remote'', 12, 42, ''Pico-1'', ''Pico Remote'', ''001.0'')) ! 1
       = ''    Pico-1: Remote (SN: 0000002A) (This Pico controls 1 devices)''
   \<and> printed (programmed_device_lines (''Lamp'', 43, ''Dimmer'', ''A dimmer'')) =
       [''<li>'', ''        Dimmer: Lamp (SN: 0000002B)'', ''</li>'']
   \<and> dump_device kitchen_db (2, ''Remote'', 12, 42, ''Pico-1'', ''Pico Remote'', ''001.0'') =
       dump_device kitchen_db (2, ''Remote'', 12, 42, ''Pico-1'', ''something else'', ''001.0'')"
proof -
  have 1: "select_devices kitchen_db 5 ! 0 =
     (2, ''Remote'', 12, 42, ModelNumber (DeviceClassInfo kitchen_db ! 1),
      ShortDescription (DeviceClassInfo kitchen_db ! 1), ''001.0'')"
    by (simp add: kitchen_devices) (simp add: db_simps)
  have 2: "printed (dump_device kitchen_db
             (2, ''Remote'', 12, 42, ''Pico-1'', ''Pico Remote'', ''001.0'')) ! 1
       = ''    Pico-1: Remote (SN: 0000002A) (This Pico controls 1 devices)''"
    by (simp add: dump_device_def class_ids kitchen_pico control_device_lines_def
        printed_Cons printed_append fmt_08X_42 fmt_d_small)
  have 3: "printed (programmed_device_lines (''Lamp'', 43, ''Dimmer'', ''A dimmer'')) =
       [''<li>'', ''        Dimmer: Lamp (SN: 0000002B)'', ''</li>'']"
    by (simp add: printed_programmed_device_lines fmt_08X_43)
  have 4: "dump_device kitchen_db (2, ''Remote'', 12, 42, ''Pico-1'', ''Pico Remote'', ''001.0'') =
       dump_device kitchen_db (2, ''Remote'', 12, 42, ''Pico-1'', ''something else'', ''001.0'')"
    by (rule designer_tag_is_model_number [where db = kitchen_db,
          THEN conjunct2, THEN conjunct2, THEN conjunct2, THEN conjunct2, THEN conjunct1])
  show ?thesis using 1 2 3 4 by blast
qed


section \<open>The nested list of a control device\<close>

lemma serial_name_inj:
  assumes key: "\<forall>d\<in>set (Device db). \<forall>d'\<in>set (Device db).
            SerialNumber d = SerialNumber d' \<and> Name d = Name d'
            \<longrightarrow> DeviceClassInfoID d = DeviceClassInfoID d'"
    and cls: "\<forall>c\<in>set (DeviceClassInfo db). \<forall>c'\<in>set (DeviceClassInfo db).
            CI_DeviceClassInfoID c = CI_DeviceClassInfoID c' \<longrightarrow> c = c'"
    and rows: "\<And>p. p \<in> R \<Longrightarrow>
            \<exists>d\<in>set (Device db). \<exists>ci\<in>set (DeviceClassInfo db).
              DeviceClassInfoID d = CI_DeviceClassInfoID ci
              \<and> p = (Name d, SerialNumber d, ModelNumber ci, ShortDescription ci)"
  shows "inj_on serial_name R"
proof (rule inj_onI)
  fix p q
  assume p: "p \<in> R" and q: "q \<in> R" and eq: "serial_name p = serial_name q"
  obtain d ci where d: "d \<in> set (Device db)" and ci: "ci \<in> set (DeviceClassInfo db)"
    and dci: "DeviceClassInfoID d = CI_DeviceClassInfoID ci"
    and pd: "p = (Name d, SerialNumber d, ModelNumber ci, ShortDescription ci)"
    using rows[OF p] by blast
  obtain d' ci' where d': "d' \<in> set (Device db)" and ci': "ci' \<in> set (DeviceClassInfo db)"
    and dci': "DeviceClassInfoID d' = CI_DeviceClassInfoID ci'"
    and qd: "q = (Name d', SerialNumber d', ModelNumber ci', ShortDescription ci')"
    using rows[OF q] by blast
  have "SerialNumber d = SerialNumber d' \<and> Name d = Name d'"
    using eq pd qd by (simp add: serial_name_def)
  then have "DeviceClassInfoID d = DeviceClassInfoID d'" using key d d' by blast
  then have "CI_DeviceClassInfoID ci = CI_DeviceClassInfoID ci'" using dci dci' by simp
  then have "ci = ci'" using cls ci ci' by blast
  then show "p = q"
    using pd qd \<open>SerialNumber d = SerialNumber d' \<and> Name d = Name d'\<close> by simp
qed

lemma twin_pico:
  "select_pico twin_db 2 =
     [(''Lamp'', 43, ''Dimmer'', ''A dimmer''), (''Lamp'', 43, ''Switch'', ''A switch'')]"
  by (simp add: db_simps query_simps)

text \<open>
  Claim C5 as stated fails: in \<open>twin_db\<close> the Pico remote with \<^verbatim>\<open>DeviceID\<close> 2 is programmed
  to two devices named \<open>Lamp\<close> with the serial number 43, a dimmer and a switch. The
  query returns both rows, which differ in the model number, and the nested list has two
  items with the same serial number and name.
\<close>

theorem twin_db_duplicate_serial_name:
  "map serial_name (select_pico twin_db 2) = [(43, ''Lamp''), (43, ''Lamp'')]
   \<and> \<not> distinct (map serial_name (select_pico twin_db 2))
   \<and> printed (dump_device twin_db
         (2, ''Remote'', 12, 42, ''Pico-1'', ''Pico Remote'', ''001.0'')) =
       [''<div id='0x0000002A'' @ apos @ '' class= 'control_device'>'',
        ''    Pico-1: Remote (SN: 0000002A) (This Pico controls 2 devices)'',
        ''</div><div id ='0x0000002A_assigned_devices' class='assigned_devices'><ul>'',
        ''<li>'', ''        Dimmer: Lamp (SN: 0000002B)'', ''</li>'',
        ''<li>'', ''        Switch: Lamp (SN: 0000002B)'', ''</li>'',
        ''</ul></div>'']"
  by (simp add: twin_pico serial_name_def dump_device_def class_ids control_device_lines_def
      programmed_device_lines_def printed_Cons fmt_08X_42 fmt_08X_43 fmt_d_small)

text \<open>
  Claim C5, amended. For a device whose class-info id is in one of the three lists, the
  nested list has one item for each row of the query of its category, and the rows of that
  query are pairwise distinct as rows (name, serial number, model number, short
  description). When no two \<^verbatim>\<open>Device\<close> rows with the same serial number and name differ in
  their class-info id and no two \<^verbatim>\<open>DeviceClassInfo\<close> rows share an id, the (serial number,
  name) pairs of the rows are pairwise distinct too.
\<close>

theorem programmed_rows_distinct:
  "distinct (select_pico db i) \<and> distinct (select_occupancy db i)
   \<and> distinct (select_daylight db i)
   \<and> (device_class_info_id \<in> set pico_device_class_info_ids \<longrightarrow>
        dump_device db (i, device_name, device_class_info_id, device_serial_number,
            device_designer_tag, device_short_descr, device_fw_rev) =
          Execute (SelectPico i)
          # control_device_lines ''Pico'' device_designer_tag device_name device_serial_number
              (select_pico db i))
   \<and> (device_class_info_id \<in> set occ_sensor_device_class_info_ids \<longrightarrow>
        dump_device db (i, device_name, device_class_info_id, device_serial_number,
            device_designer_tag, device_short_descr, device_fw_rev) =
          Execute (SelectOccupancy i)
          # control_device_lines ''Occupancy Sensor'' device_designer_tag device_name
              device_serial_number (select_occupancy db i))
   \<and> (device_class_info_id \<in> set daylight_sensor_device_class_info_ids \<longrightarrow>
        dump_device db (i, device_name, device_class_info_id, device_serial_number,
            device_designer_tag, device_short_descr, device_fw_rev) =
          Execute (SelectDaylight i)
          # control_device_lines ''Daylight Sensor'' device_designer_tag device_name
              device_serial_number (select_daylight db i))
   \<and> printed (control_device_lines kind device_designer_tag device_name device_serial_number
         rows) =
       take 3 (printed (control_device_lines kind device_designer_tag device_name
         device_serial_number rows))
       @ concat (map (\<lambda>r. printed (programmed_device_lines r)) rows) @ [''</ul></div>'']
   \<and> ((\<forall>d\<in>set (Device db). \<forall>d'\<in>set (Device db).
          SerialNumber d = SerialNumber d' \<and> Name d = Name d'
          \<longrightarrow> DeviceClassInfoID d = DeviceClassInfoID d')
        \<and> (\<forall>c\<in>set (DeviceClassInfo db). \<forall>c'\<in>set (DeviceClassInfo db).
          CI_DeviceClassInfoID c = CI_DeviceClassInfoID c' \<longrightarrow> c = c')
      \<longrightarrow> distinct (map serial_name (select_pico db i))
          \<and> distinct (map serial_name (select_occupancy db i))
          \<and> distinct (map serial_name (select_daylight db i)))"
proof -
  have 1: "distinct (select_pico db i)" "distinct (select_occupancy db i)"
    "distinct (select_daylight db i)"
    by (simp_all add: select_pico_def select_occupancy_def select_daylight_def)
  have 2: "device_class_info_id \<in> set pico_device_class_info_ids \<longrightarrow>
        dump_device db (i, device_name, device_class_info_id, device_serial_number,
            device_designer_tag, device_short_descr, device_fw_rev) =
          Execute (SelectPico i)
          # control_device_lines ''Pico'' device_designer_tag device_name device_serial_number
              (select_pico db i)"
    by (simp add: dump_device_def)
  have 3: "device_class_info_id \<in> set occ_sensor_device_class_info_ids \<longrightarrow>
        dump_device db (i, device_name, device_class_info_id, device_serial_number,
            device_designer_tag, device_short_descr, device_fw_rev) =
          Execute (SelectOccupancy i)
          # control_device_lines ''Occupancy Sensor'' device_designer_tag device_name
              device_serial_number (select_occupancy db i)"
    by (simp add: dump_device_def class_ids)
  have 4: "device_class_info_id \<in> set daylight_sensor_device_class_info_ids \<longrightarrow>
        dump_device db (i, device_name, device_class_info_id, device_serial_number,
            device_designer_tag, device_short_descr, device_fw_rev) =
          Execute (SelectDaylight i)
          # control_device_lines ''Daylight Sensor'' device_designer_tag device_name
              device_serial_number (select_daylight db i)"
    by (simp add: dump_device_def class_ids)
  have pc: "printed (concat (map programmed_device_lines rs)) =
      concat (map (\<lambda>r. printed (programmed_device_lines r)) rs)" for rs
    by (induction rs) (simp_all add: printed_append printed_Cons)
  have 5: "printed (control_device_lines kind device_designer_tag device_name
         device_serial_number rows) =
       take 3 (printed (control_device_lines kind device_designer_tag device_name
         device_serial_number rows))
       @ concat (map (\<lambda>r. printed (programmed_device_lines r)) rows) @ [''</ul></div>'']"
    by (simp add: control_device_lines_def printed_Cons printed_append pc)
  have 6: "(\<forall>d\<in>set (Device db). \<forall>d'\<in>set (Device db).
          SerialNumber d = SerialNumber d' \<and> Name d = Name d'
          \<longrightarrow> DeviceClassInfoID d = DeviceClassInfoID d')
        \<and> (\<forall>c\<in>set (DeviceClassInfo db). \<forall>c'\<in>set (DeviceClassInfo db).
          CI_DeviceClassInfoID c = CI_DeviceClassInfoID c' \<longrightarrow> c = c')
      \<longrightarrow> distinct (map serial_name (select_pico db i))
          \<and> distinct (map serial_name (select_occupancy db i))
          \<and> distinct (map serial_name (select_daylight db i))"
  proof (intro impI, elim conjE)
    assume key: "\<forall>d\<in>set (Device db). \<forall>d'\<in>set (Device db).
          SerialNumber d = SerialNumber d' \<and> Name d = Name d'
          \<longrightarrow> DeviceClassInfoID d = DeviceClassInfoID d'"
      and cls: "\<forall>c\<in>set (DeviceClassInfo db). \<forall>c'\<in>set (DeviceClassInfo db).
          CI_DeviceClassInfoID c = CI_DeviceClassInfoID c' \<longrightarrow> c = c'"
    have "inj_on serial_name (set (select_pico db i))"
      by (rule serial_name_inj[OF key cls]) (rule select_pico_rows)
    moreover have "inj_on serial_name (set (select_occupancy db i))"
      by (rule serial_name_inj[OF key cls]) (rule select_occupancy_rows)
    moreover have "inj_on serial_name (set (select_daylight db i))"
      by (rule serial_name_inj[OF key cls]) (rule select_daylight_rows)
    ultimately show "distinct (map serial_name (select_pico db i))
          \<and> distinct (map serial_name (select_occupancy db i))
          \<and> distinct (map serial_name (select_daylight db i))"
      using 1 by (simp add: distinct_map)
  qed
  show ?thesis using 1 2 3 4 5 6 by blast
qed

text \<open>The theorem at the Pico remote of \<open>kitchen_db\<close>, which has two identical
  \<^verbatim>\<open>Button\<close> rows: the join has two equal rows and the query returns one.\<close>

theorem programmed_rows_distinct_witness:
  "select_pico kitchen_db 2 = [(''Lamp'', 43, ''Dimmer'', ''A dimmer'')]
   \<and> distinct (select_pico kitchen_db 2)
   \<and> dump_device kitchen_db (2, ''Remote'', 12, 42, ''Pico-1'', ''Pico Remote'', ''001.0'') =
       Execute (SelectPico 2)
       # control_device_lines ''Pico'' ''Pico-1'' ''Remote'' 42 (select_pico kitchen_db 2)
   \<and> distinct (map serial_name (select_pico kitchen_db 2))"
proof -
  note t = programmed_rows_distinct [where db = kitchen_db and i = 2
      and device_class_info_id = 12 and device_name = "''Remote''"
      and device_serial_number = 42 and device_designer_tag = "''Pico-1''"
      and device_short_descr = "''Pico Remote''" and device_fw_rev = "''001.0''"]
  have 1: "distinct (select_pico kitchen_db 2)"
    by (rule t [THEN conjunct1])
  have "(12::int) \<in> set pico_device_class_info_ids"
    by (simp add: class_ids)
  then have 2: "dump_device kitchen_db
        (2, ''Remote'', 12, 42, ''Pico-1'', ''Pico Remote'', ''001.0'') =
       Execute (SelectPico 2)
       # control_device_lines ''Pico'' ''Pico-1'' ''Remote'' 42 (select_pico kitchen_db 2)"
    using t [THEN conjunct2, THEN conjunct2, THEN conjunct2, THEN conjunct1] by blast
  have key: "\<forall>d\<in>set (Device kitchen_db). \<forall>d'\<in>set (Device kitchen_db).
          SerialNumber d = SerialNumber d' \<and> Name d = Name d'
          \<longrightarrow> DeviceClassInfoID d = DeviceClassInfoID d'"
    by (simp add: db_simps)
  have cls: "\<forall>c\<in>set (DeviceClassInfo kitchen_db). \<forall>c'\<in>set (DeviceClassInfo kitchen_db).
          CI_DeviceClassInfoID c = CI_DeviceClassInfoID c' \<longrightarrow> c = c'"
    by (simp add: db_simps)
  have 3: "distinct (map serial_name (select_pico kitchen_db 2))"
    using t [THEN conjunct2, THEN conjunct2, THEN conjunct2, THEN conjunct2, THEN conjunct2,
        THEN conjunct2, THEN conjunct2] key cls by blast
  show ?thesis using kitchen_pico 1 2 3 by blast
qed


section \<open>The structure of the document\<close>

lemma boilerplate_no_div: "count_sub ''<div'' boilerplate = 0"
  by code_simp

lemma boilerplate_no_div_close: "count_sub ''</div>'' boilerplate = 0"
  by code_simp

lemma root_only_printed:
  "printed (fst (dumpproject ver (Some root_only_db))) =
     [boilerplate,
      ''<input type='button' value='Print' onClick='window.print()'>'',
      ''<div id='hub_info'>'',
      ''Hub Serial: 01A2AFC4'',
      ''<br />'',
      ''Wifi Name: vive'',
      ''<br /><textarea rows='4' cols='30' placeholder='Enter notes here, e.g. The WiFi Password is Lutron123!'></textarea><br />'',
      ''<a href ='#' id ='showall' title='Expand All Areas'>&#8650;</a> | <a href ='#' id ='hideall' title='Collapse All Areas'>&#8649;</a>'',
      ''</div><br /><div id='areas'>'']"
proof -
  have a: "select_areas root_only_db = []"
    by (simp add: db_simps select_areas_def)
  have h: "hub_events root_only_db =
      [Execute SelectHub, Print ''Hub Serial: 01A2AFC4'', Print ''<br />'']"
    by (simp add: hub_events_def hub_lines_def select_hub_def db_simps fmt_08X_hub)
  have w: "wifi_events root_only_db = Execute SelectWifi # wifi_lines ''vive''"
    by (simp add: wifi_events_def select_wifi_def db_simps)
  show ?thesis
    by (simp add: dumpproject_no_areas[OF a] h w header_events_def wifi_lines_def
        links_events_def printed_Cons)
qed

text \<open>
  Claim C8, at a database whose only area is \<open>root\<close>. The run returns under both language
  versions; the output opens two \<^verbatim>\<open>div\<close> elements, \<open>hub_info\<close> and \<open>areas\<close>, and closes
  one: the \<^verbatim>\<open>div\<close> with the id \<open>areas\<close>, opened at line 163, is not closed.
\<close>

theorem areas_div_not_closed:
  "snd (dumpproject ver (Some root_only_db)) = Returned
   \<and> count_tag ''<div'' (fst (dumpproject ver (Some root_only_db))) = 2
   \<and> count_tag ''</div>'' (fst (dumpproject ver (Some root_only_db))) = 1
   \<and> last (printed (fst (dumpproject ver (Some root_only_db)))) = ''</div><br /><div id='areas'>''
   \<and> snd (dumpproject Py2 (Some kitchen_db)) = Returned
   \<and> count_tag ''<div'' (fst (dumpproject Py2 (Some kitchen_db))) = 7
   \<and> count_tag ''</div>'' (fst (dumpproject Py2 (Some kitchen_db))) = 6"
proof -
  have a: "select_areas root_only_db = []"
    by (simp add: db_simps select_areas_def)
  have 1: "snd (dumpproject ver (Some root_only_db)) = Returned"
    by (simp add: dumpproject_no_areas[OF a])
  have 2: "count_tag ''<div'' (fst (dumpproject ver (Some root_only_db))) = 2"
    by (simp add: count_tag_def root_only_printed boilerplate_no_div)
  have 3: "count_tag ''</div>'' (fst (dumpproject ver (Some root_only_db))) = 1"
    by (simp add: count_tag_def root_only_printed boilerplate_no_div_close)
  have 4: "last (printed (fst (dumpproject ver (Some root_only_db)))) = ''</div><br /><div id='areas'>''"
    by (simp add: root_only_printed)
  have p: "printed (fst (dumpproject Py2 (Some kitchen_db))) =
      [boilerplate,
       ''<input type='button' value='Print' onClick='window.print()'>'',
       ''<div id='hub_info'>'',
       ''Hub Serial: 01A2AFC4'',
       ''<br />'',
       ''Wifi Name: vive'',
       ''<br /><textarea rows='4' cols='30' placeholder='Enter notes here, e.g. The WiFi Password is Lutron123!'></textarea><br />'',
       ''<a href ='#' id ='showall' title='Expand All Areas'>&#8650;</a> | <a href ='#' id ='hideall' title='Collapse All Areas'>&#8649;</a>'',
       ''</div><br /><div id='areas'>'']
      @ printed (area_events kitchen_db 5 ''Kitchen'')"
    by (simp add: dumpproject_Py2 kitchen_areas kitchen_hub kitchen_wifi header_events_def
        wifi_lines_def links_events_def printed_Cons printed_append)
  have 5: "snd (dumpproject Py2 (Some kitchen_db)) = Returned"
    by (simp add: dumpproject_Py2)
  have 6: "count_tag ''<div'' (fst (dumpproject Py2 (Some kitchen_db))) = 7"
    unfolding count_tag_def p kitchen_area_events
    by (simp add: boilerplate_no_div apos_def)
  have 7: "count_tag ''</div>'' (fst (dumpproject Py2 (Some kitchen_db))) = 6"
    unfolding count_tag_def p kitchen_area_events
    by (simp add: boilerplate_no_div_close apos_def)
  show ?thesis using 1 2 3 4 5 6 7 by blast
qed

section \<open>The support file\<close>

lemma main_support_file:
  assumes "parse_args fs argv \<lparr>database_path = None, support_file = None\<rparr> = Inr a"
    and "support_file a = Some sf"
    and "fs sf = Some (TarGz tar)"
  shows "main ver tmp argv fs =
     (let info = filter (\<lambda>s. fst s = member_name) tar in
      if length info = 1 then
        (let fs1 = fs(tmp \<mapsto> snd (hd info)) in
         case dumpproject ver (connect fs1 tmp) of
           (events, Returned) \<Rightarrow>
             \<lparr>trace = events, exit_with = ExitOk, files = fs1(tmp := None)\<rparr>
         | (events, Raised e) \<Rightarrow>
             \<lparr>trace = events, exit_with = Traceback e, files = fs1\<rparr>)
      else
        \<lparr>trace = [],
         exit_with = ParserError (''Invalid support file (couldn't find database) - '' @ sf),
         files = fs\<rparr>)"
  using assms by (simp add: main_def)

lemma main_one_member:
  assumes "parse_args fs argv \<lparr>database_path = None, support_file = None\<rparr> = Inr a"
    and "support_file a = Some sf"
    and "fs sf = Some (TarGz tar)"
    and "filter (\<lambda>s. fst s = member_name) tar = [(name, c)]"
  shows "main ver tmp argv fs =
     (case dumpproject ver (connect (fs(tmp \<mapsto> c)) tmp) of
           (events, Returned) \<Rightarrow>
             \<lparr>trace = events, exit_with = ExitOk, files = (fs(tmp \<mapsto> c))(tmp := None)\<rparr>
         | (events, Raised e) \<Rightarrow>
             \<lparr>trace = events, exit_with = Traceback e, files = fs(tmp \<mapsto> c)\<rparr>)"
  using assms(4) by (simp add: main_support_file[OF assms(1,2,3)] Let_def)

text \<open>
  Claim C4. The command line is accepted, names a support file and the file is a gzip tar
  archive. When the number of members named \<^verbatim>\<open>./supportfile/lutron-db.sqlite\<close> is not 1, the
  run makes no event at all (nothing is printed, no database is opened), it ends in
  \<^verbatim>\<open>parser.error\<close> with a message that ends with the path of the archive, with status 2, and
  no file is created. When there is exactly one such member, the events of the run are
  those of \<^verbatim>\<open>dumpproject\<close> on the temporary file that holds the member, and the run ends
  normally when \<^verbatim>\<open>dumpproject\<close> returns and with its exception otherwise.
\<close>

theorem archive_member_count:
  assumes "parse_args fs argv \<lparr>database_path = None, support_file = None\<rparr> = Inr a"
    and "support_file a = Some sf"
    and "fs sf = Some (TarGz tar)"
  shows "(length (filter (\<lambda>s. fst s = ''./supportfile/lutron-db.sqlite'') tar) \<noteq> 1 \<longrightarrow>
            trace (main ver tmp argv fs) = []
            \<and> exit_with (main ver tmp argv fs) =
                ParserError (''Invalid support file (couldn't find database) - '' @ sf)
            \<and> exit_status (exit_with (main ver tmp argv fs)) = 2
            \<and> files (main ver tmp argv fs) = fs)
         \<and> (\<forall>name c.
              filter (\<lambda>s. fst s = ''./supportfile/lutron-db.sqlite'') tar = [(name, c)] \<longrightarrow>
                trace (main ver tmp argv fs) =
                  fst (dumpproject ver (case c of Sqlite db \<Rightarrow> Some db | _ \<Rightarrow> None))
                \<and> exit_with (main ver tmp argv fs) =
                    (case snd (dumpproject ver (case c of Sqlite db \<Rightarrow> Some db | _ \<Rightarrow> None)) of
                       Returned \<Rightarrow> ExitOk | Raised e \<Rightarrow> Traceback e))"
proof -
  have 1: "length (filter (\<lambda>s. fst s = ''./supportfile/lutron-db.sqlite'') tar) \<noteq> 1 \<longrightarrow>
            trace (main ver tmp argv fs) = []
            \<and> exit_with (main ver tmp argv fs) =
                ParserError (''Invalid support file (couldn't find database) - '' @ sf)
            \<and> exit_status (exit_with (main ver tmp argv fs)) = 2
            \<and> files (main ver tmp argv fs) = fs"
    by (simp add: main_support_file[OF assms] member_name_def)
  have 2: "trace (main ver tmp argv fs) =
                  fst (dumpproject ver (case c of Sqlite db \<Rightarrow> Some db | _ \<Rightarrow> None))
                \<and> exit_with (main ver tmp argv fs) =
                    (case snd (dumpproject ver (case c of Sqlite db \<Rightarrow> Some db | _ \<Rightarrow> None)) of
                       Returned \<Rightarrow> ExitOk | Raised e \<Rightarrow> Traceback e)"
    if "filter (\<lambda>s. fst s = ''./supportfile/lutron-db.sqlite'') tar = [(name, c)]" for name c
  proof -
    have f: "filter (\<lambda>s. fst s = member_name) tar = [(name, c)]"
      using that by (simp add: member_name_def)
    have c: "connect (fs(tmp \<mapsto> c)) tmp = (case c of Sqlite db \<Rightarrow> Some db | _ \<Rightarrow> None)"
      by (simp add: connect_def)
    show ?thesis
      unfolding main_one_member[OF assms f] c
      by (simp split: prod.splits outcome.splits)
  qed
  show ?thesis using 1 2 by blast
qed


lemma parse_support_fs:
  "parse_args (support_fs tar) [SupportFile ''support.tar.gz'']
     \<lparr>database_path = None, support_file = None\<rparr> =
   Inr \<lparr>database_path = None, support_file = Some ''support.tar.gz''\<rparr>"
  by (simp add: fileexists_def support_fs_def)

lemma support_fs_archive: "support_fs tar ''support.tar.gz'' = Some (TarGz tar)"
  by (simp add: support_fs_def)

lemma support_fs_tmp: "support_fs tar ''/tmp/tmpa1b2c3'' = None"
  by (simp add: support_fs_def)

lemma root_only_returns: "snd (dumpproject ver (Some root_only_db)) = Returned"
  by (simp add: dumpproject_no_areas db_simps select_areas_def)

text \<open>The theorem at three support files: one without the member, one that has it twice,
  and one that has it once, holding \<open>root_only_db\<close>.\<close>

theorem archive_member_count_witness:
  "trace (main Py3 ''/tmp/tmpa1b2c3'' [SupportFile ''support.tar.gz'']
       (support_fs [(''./supportfile/version.txt'', Other)])) = []
   \<and> exit_with (main Py3 ''/tmp/tmpa1b2c3'' [SupportFile ''support.tar.gz'']
       (support_fs [(''./supportfile/version.txt'', Other)])) =
       ParserError ''Invalid support file (couldn't find database) - support.tar.gz''
   \<and> exit_status (exit_with (main Py3 ''/tmp/tmpa1b2c3'' [SupportFile ''support.tar.gz'']
       (support_fs [(''./supportfile/lutron-db.sqlite'', Sqlite root_only_db),
                    (''./supportfile/lutron-db.sqlite'', Sqlite kitchen_db)]))) = 2
   \<and> trace (main Py3 ''/tmp/tmpa1b2c3'' [SupportFile ''support.tar.gz'']
       (support_fs [(''./supportfile/version.txt'', Other),
                    (''./supportfile/lutron-db.sqlite'', Sqlite root_only_db)])) =
       fst (dumpproject Py3 (Some root_only_db))
   \<and> exit_with (main Py3 ''/tmp/tmpa1b2c3'' [SupportFile ''support.tar.gz'']
       (support_fs [(''./supportfile/version.txt'', Other),
                    (''./supportfile/lutron-db.sqlite'', Sqlite root_only_db)])) = ExitOk"
proof -
  have s: "support_file \<lparr>database_path = None, support_file = Some ''support.tar.gz''\<rparr>
      = Some ''support.tar.gz''"
    by simp
  have 0: "trace (main Py3 ''/tmp/tmpa1b2c3'' [SupportFile ''support.tar.gz'']
       (support_fs [(''./supportfile/version.txt'', Other)])) = []
     \<and> exit_with (main Py3 ''/tmp/tmpa1b2c3'' [SupportFile ''support.tar.gz'']
       (support_fs [(''./supportfile/version.txt'', Other)])) =
       ParserError ''Invalid support file (couldn't find database) - support.tar.gz''"
    using archive_member_count [OF parse_support_fs s support_fs_archive,
        of "[(''./supportfile/version.txt'', Other)]" Py3 "''/tmp/tmpa1b2c3''", THEN conjunct1]
    by simp
  have 2: "exit_status (exit_with (main Py3 ''/tmp/tmpa1b2c3'' [SupportFile ''support.tar.gz'']
       (support_fs [(''./supportfile/lutron-db.sqlite'', Sqlite root_only_db),
                    (''./supportfile/lutron-db.sqlite'', Sqlite kitchen_db)]))) = 2"
    using archive_member_count [OF parse_support_fs s support_fs_archive,
        of "[(''./supportfile/lutron-db.sqlite'', Sqlite root_only_db),
             (''./supportfile/lutron-db.sqlite'', Sqlite kitchen_db)]" Py3 "''/tmp/tmpa1b2c3''",
        THEN conjunct1]
    by simp
  have 1: "trace (main Py3 ''/tmp/tmpa1b2c3'' [SupportFile ''support.tar.gz'']
       (support_fs [(''./supportfile/version.txt'', Other),
                    (''./supportfile/lutron-db.sqlite'', Sqlite root_only_db)])) =
       fst (dumpproject Py3 (Some root_only_db))
     \<and> exit_with (main Py3 ''/tmp/tmpa1b2c3'' [SupportFile ''support.tar.gz'']
       (support_fs [(''./supportfile/version.txt'', Other),
                    (''./supportfile/lutron-db.sqlite'', Sqlite root_only_db)])) = ExitOk"
    using archive_member_count [OF parse_support_fs s support_fs_archive,
        of "[(''./supportfile/version.txt'', Other),
             (''./supportfile/lutron-db.sqlite'', Sqlite root_only_db)]" Py3 "''/tmp/tmpa1b2c3''",
        THEN conjunct2, rule_format,
        of "''./supportfile/lutron-db.sqlite''" "Sqlite root_only_db"]
    by (simp add: root_only_returns)
  show ?thesis using 0 1 2 by blast
qed

text \<open>
  Claim C2 as stated fails. The support file has one member with the expected name and the
  member is not a database: the first query raises and the temporary file is still there
  when the run ends. Under Python 3 the same happens with a member that is a database with
  an area: line 191 raises and line 64 is not reached.
\<close>

theorem temporary_file_left_behind:
  "files (main Py2 ''/tmp/tmpa1b2c3'' [SupportFile ''support.tar.gz'']
       (support_fs [(''./supportfile/lutron-db.sqlite'', Other)])) ''/tmp/tmpa1b2c3'' = Some Other
   \<and> exit_with (main Py2 ''/tmp/tmpa1b2c3'' [SupportFile ''support.tar.gz'']
       (support_fs [(''./supportfile/lutron-db.sqlite'', Other)])) = Traceback DatabaseError
   \<and> files (main Py3 ''/tmp/tmpa1b2c3'' [SupportFile ''support.tar.gz'']
       (support_fs [(''./supportfile/lutron-db.sqlite'', Sqlite kitchen_db)])) ''/tmp/tmpa1b2c3''
       = Some (Sqlite kitchen_db)
   \<and> exit_with (main Py3 ''/tmp/tmpa1b2c3'' [SupportFile ''support.tar.gz'']
       (support_fs [(''./supportfile/lutron-db.sqlite'', Sqlite kitchen_db)]))
       = Traceback TypeError"
proof -
  have s: "support_file \<lparr>database_path = None, support_file = Some ''support.tar.gz''\<rparr>
      = Some ''support.tar.gz''"
    by simp
  have f: "filter (\<lambda>s. fst s = member_name) [(''./supportfile/lutron-db.sqlite'', c)]
      = [(''./supportfile/lutron-db.sqlite'', c)]" for c :: contents
    by (simp add: member_name_def)
  note m = main_one_member [OF parse_support_fs s support_fs_archive f]
  have 1: "main Py2 ''/tmp/tmpa1b2c3'' [SupportFile ''support.tar.gz'']
       (support_fs [(''./supportfile/lutron-db.sqlite'', Other)]) =
     \<lparr>trace = header_events @ [Execute SelectHub], exit_with = Traceback DatabaseError,
      files = (support_fs [(''./supportfile/lutron-db.sqlite'', Other)])
                (''/tmp/tmpa1b2c3'' \<mapsto> Other)\<rparr>"
    by (simp add: m connect_def dumpproject_def)
  have 2: "main Py3 ''/tmp/tmpa1b2c3'' [SupportFile ''support.tar.gz'']
       (support_fs [(''./supportfile/lutron-db.sqlite'', Sqlite kitchen_db)]) =
     \<lparr>trace = fst (dumpproject Py3 (Some kitchen_db)), exit_with = Traceback TypeError,
      files = (support_fs [(''./supportfile/lutron-db.sqlite'', Sqlite kitchen_db)])
                (''/tmp/tmpa1b2c3'' \<mapsto> Sqlite kitchen_db)\<rparr>"
    by (simp add: m connect_def dumpproject_Py3_area[OF kitchen_areas])
  show ?thesis by (simp add: 1 2)
qed

text \<open>
  Claim C2, amended. The command line is accepted and names a support file with exactly one
  member named \<^verbatim>\<open>./supportfile/lutron-db.sqlite\<close>, and \<open>tmp\<close> is the fresh name of the
  temporary file. When \<^verbatim>\<open>dumpproject\<close> returns, the run ends normally and the files are
  those before the run: the temporary file is deleted. When \<^verbatim>\<open>dumpproject\<close> raises, the
  run ends with that exception and the temporary file, holding the member, is still
  there.
\<close>

theorem temporary_file_removed_on_return:
  assumes "parse_args fs argv \<lparr>database_path = None, support_file = None\<rparr> = Inr a"
    and "support_file a = Some sf"
    and "fs sf = Some (TarGz tar)"
    and "filter (\<lambda>s. fst s = ''./supportfile/lutron-db.sqlite'') tar = [(name, c)]"
    and "fs tmp = None"
  shows "(snd (dumpproject ver (case c of Sqlite db \<Rightarrow> Some db | _ \<Rightarrow> None)) = Returned \<longrightarrow>
            exit_with (main ver tmp argv fs) = ExitOk
            \<and> files (main ver tmp argv fs) = fs
            \<and> files (main ver tmp argv fs) tmp = None)
         \<and> (\<forall>e. snd (dumpproject ver (case c of Sqlite db \<Rightarrow> Some db | _ \<Rightarrow> None)) = Raised e \<longrightarrow>
            exit_with (main ver tmp argv fs) = Traceback e
            \<and> files (main ver tmp argv fs) = fs(tmp \<mapsto> c)
            \<and> files (main ver tmp argv fs) tmp = Some c)"
proof -
  have f: "filter (\<lambda>s. fst s = member_name) tar = [(name, c)]"
    using assms(4) by (simp add: member_name_def)
  have c: "connect (fs(tmp \<mapsto> c)) tmp = (case c of Sqlite db \<Rightarrow> Some db | _ \<Rightarrow> None)"
    by (simp add: connect_def)
  have r: "(fs(tmp \<mapsto> c))(tmp := None) = fs"
    using assms(5) by auto
  show ?thesis
    unfolding main_one_member[OF assms(1,2,3) f] c r
    using assms(5) by (auto split: prod.splits outcome.splits)
qed

text \<open>The theorem at a support file whose member holds \<open>root_only_db\<close>, for which
  \<^verbatim>\<open>dumpproject\<close> returns, and at one whose member is not a database.\<close>

theorem temporary_file_removed_on_return_witness:
  "files (main Py3 ''/tmp/tmpa1b2c3'' [SupportFile ''support.tar.gz'']
       (support_fs [(''./supportfile/lutron-db.sqlite'', Sqlite root_only_db)])) ''/tmp/tmpa1b2c3''
       = None
   \<and> exit_with (main Py3 ''/tmp/tmpa1b2c3'' [SupportFile ''support.tar.gz'']
       (support_fs [(''./supportfile/lutron-db.sqlite'', Sqlite root_only_db)])) = ExitOk
   \<and> files (main Py3 ''/tmp/tmpa1b2c3'' [SupportFile ''support.tar.gz'']
       (support_fs [(''./supportfile/lutron-db.sqlite'', Other)])) ''/tmp/tmpa1b2c3''
       = Some Other"
proof -
  have s: "support_file \<lparr>database_path = None, support_file = Some ''support.tar.gz''\<rparr>
      = Some ''support.tar.gz''"
    by simp
  have f: "filter (\<lambda>s. fst s = ''./supportfile/lutron-db.sqlite'')
        [(''./supportfile/lutron-db.sqlite'', c)]
      = [(''./supportfile/lutron-db.sqlite'', c)]" for c :: contents
    by simp
  have 1: "files (main Py3 ''/tmp/tmpa1b2c3'' [SupportFile ''support.tar.gz'']
       (support_fs [(''./supportfile/lutron-db.sqlite'', Sqlite root_only_db)])) ''/tmp/tmpa1b2c3''
       = None
     \<and> exit_with (main Py3 ''/tmp/tmpa1b2c3'' [SupportFile ''support.tar.gz'']
       (support_fs [(''./supportfile/lutron-db.sqlite'', Sqlite root_only_db)])) = ExitOk"
    using temporary_file_removed_on_return [OF parse_support_fs s support_fs_archive
        f [of "Sqlite root_only_db"] support_fs_tmp, of Py3, THEN conjunct1]
    by (simp add: root_only_returns support_fs_tmp)
  have 2: "files (main Py3 ''/tmp/tmpa1b2c3'' [SupportFile ''support.tar.gz'']
       (support_fs [(''./supportfile/lutron-db.sqlite'', Other)])) ''/tmp/tmpa1b2c3''
       = Some Other"
    using temporary_file_removed_on_return [OF parse_support_fs s support_fs_archive
        f [of Other] support_fs_tmp, of Py3, THEN conjunct2, rule_format, of DatabaseError]
    by (simp add: dumpproject_def)
  show ?thesis using 1 2 by blast
qed


section \<open>The area sections under Python 2\<close>

text \<open>
  Where lines 191 and 193 do not raise, the report is what claim C3 describes: one section
  for each area row whose name is not \<open>root\<close>, in the order of the areas query, whose
  second line shows the number of rows of the devices query. That number is the number of
  \<^verbatim>\<open>Device\<close> rows placed in the area when every such row has exactly one
  \<^verbatim>\<open>DeviceClassInfo\<close> row, the invariant the specification relies on.
\<close>

lemma select_areas_filter:
  "select_areas db =
     map (\<lambda>a. (AreaID a, Area_Name a)) (filter (\<lambda>a. Area_Name a \<noteq> ''root'') (Area db))"
  by (simp add: select_areas_def concat_map_if)

lemma printed_concat:
  "printed (concat (map f xs)) = concat (map (\<lambda>x. printed (f x)) xs)"
  by (induction xs) (simp_all add: printed_append printed_Cons)

lemma dumpproject_Py2_sections:
  "printed (fst (dumpproject Py2 (Some db))) =
     printed header_events @ printed (hub_events db) @ printed (wifi_events db)
     @ printed links_events
     @ concat (map (\<lambda>a. printed (area_events db (AreaID a) (Area_Name a)))
                   (filter (\<lambda>a. Area_Name a \<noteq> ''root'') (Area db)))"
  by (simp add: dumpproject_Py2 printed_append printed_Cons printed_concat select_areas_filter
      comp_def)

lemma area_events_heading:
  "take 3 (printed (area_events db area_id area_name)) =
     [''<div id= '' @ apos @ area_name @ apos @ '' class= 'area'>'',
      ''Area: '' @ area_name @ '' (There are ''
        @ fmt_d (int (length (select_devices db area_id))) @ '' total devices in this Area)'',
      ''<div id='' @ apos @ area_name @ ''_devices' class= 'devices'><ul>'']"
  by (simp add: area_events_def Let_def printed_Cons printed_append)

lemma join_count:
  assumes "\<forall>d\<in>set ds. length (filter (P d) cs) = 1"
  shows "length (concat (map (\<lambda>d. concat (map (\<lambda>c. if P d c then if Q d then [f d c] else []
                                                      else []) cs)) ds)) =
         length (filter Q ds)"
  using assms
proof (induction ds)
  case Nil
  then show ?case by simp
next
  case (Cons d ds)
  have inner: "length (concat (map (\<lambda>c. if P d c then if Q d then [f d c] else [] else []) cs)) =
      (if Q d then length (filter (P d) cs) else 0)"
    by (induction cs) simp_all
  show ?case using Cons by (simp add: inner)
qed

lemma select_devices_count:
  assumes "\<forall>d\<in>set (Device db).
      length (filter (\<lambda>ci. DeviceClassInfoID d = CI_DeviceClassInfoID ci) (DeviceClassInfo db)) = 1"
  shows "length (select_devices db area_id) =
     length (filter (\<lambda>d. ContainerObjectID d = area_id \<and> ContainerObjectTypeID d = 2)
               (Device db))"
  unfolding select_devices_def
  by (rule join_count[OF assms])

end
